theory Spec2Isabelle
  imports Complex_Main "HOL-Library.Product_Lexorder"
begin

section \<open>Customer Revenue Bridge: data model\<close>

text \<open>
  The repository computes a customer revenue bridge with pandas. A dataframe is modelled
  as a list of rows and a vectorised column operation as the same operation on every row:
  all frames that reach the functions below carry a unique index (they come out of
  \<^verbatim>\<open>pd.merge\<close>), so index alignment pairs each row with itself.

  A pandas Timestamp is a record of its calendar fields, read by \<^verbatim>\<open>.dt.year\<close>,
  \<^verbatim>\<open>.dt.month\<close>. The bounds of the Timestamp type (years 1677 to 2262) are not modelled.
  A missing date (NaT) is \<open>None\<close>. The date columns that come from the input and from the
  lifespan merge (\<^verbatim>\<open>month\<close>, \<^verbatim>\<open>customer_start_date\<close>, ...) are populated on every row
  that survives \<^verbatim>\<open>trim_dataset\<close>, whose comparisons are false on NaT, so they are plain
  timestamps; the period starts that the period calculator assembles can be NaT.
\<close>

record timestamp =
  dt_year :: int
  dt_month :: int
  dt_day :: int

datatype error =
    KeyError string
  | ValueError string
  | TypeError string
  | UnboundLocalError string

text \<open>
  The process-wide configuration \<^verbatim>\<open>config['constants']\<close>, with the types the calculations
  need: \<^verbatim>\<open>range(0, con['month_period'])\<close> and \<^verbatim>\<open>pd.DateOffset(months=...)\<close> only
  accept an int.
\<close>

record constants =
  crb_type :: string
  month_period :: int
  fy_start_month :: int

text \<open>\<^verbatim>\<open>crb_number_months\<close> of generic_tools.py, the \<^verbatim>\<open>static_period\<close> of every module.\<close>

definition crb_number_months :: "constants \<Rightarrow> bool" where
  "crb_number_months con = (crb_type con \<in> set [''number_of_months''])"

subsection \<open>Month arithmetic\<close>

text \<open>
  \<^verbatim>\<open>calculate_month_difference(df, start_date, end_date)\<close>, on one row:
  \<^verbatim>\<open>(end.dt.year - start.dt.year) * 12 + end.dt.month - start.dt.month\<close>.
\<close>

definition calculate_month_difference :: "timestamp \<Rightarrow> timestamp \<Rightarrow> int" where
  "calculate_month_difference start_date end_date =
     (dt_year end_date - dt_year start_date) * 12 + dt_month end_date - dt_month start_date"

text \<open>The same on a column that may hold NaT: the difference is then NaN (\<open>None\<close>).\<close>

definition month_difference_nat :: "timestamp \<Rightarrow> timestamp option \<Rightarrow> int option" where
  "month_difference_nat start_date end_date =
     map_option (calculate_month_difference start_date) end_date"

text \<open>Comparisons of a number with a possibly-NaN number: false on NaN, as in numpy.\<close>

definition nan_less :: "int \<Rightarrow> int option \<Rightarrow> bool" where
  "nan_less a b = (case b of None \<Rightarrow> False | Some v \<Rightarrow> a < v)"

definition nan_ge :: "int \<Rightarrow> int option \<Rightarrow> bool" where
  "nan_ge a b = (case b of None \<Rightarrow> False | Some v \<Rightarrow> a \<ge> v)"

text \<open>\<^verbatim>\<open>ts + pd.DateOffset(months=n)\<close>: the month moves, the day is clipped to the month's end.\<close>

definition is_leap :: "int \<Rightarrow> bool" where
  "is_leap y = (y mod 4 = 0 \<and> (y mod 100 \<noteq> 0 \<or> y mod 400 = 0))"

definition days_in_month :: "int \<Rightarrow> int \<Rightarrow> int" where
  "days_in_month y m =
     (if m = 2 then (if is_leap y then 29 else 28)
      else if m \<in> set [4, 6, 9, 11] then 30 else 31)"

definition add_months :: "timestamp \<Rightarrow> int \<Rightarrow> timestamp" where
  "add_months d n =
     (let t = dt_year d * 12 + (dt_month d - 1) + n;
          y = t div 12;
          m = t mod 12 + 1
      in \<lparr>dt_year = y, dt_month = m, dt_day = min (dt_day d) (days_in_month y m)\<rparr>)"

section \<open>Period calculator (generic_tools.py)\<close>

text \<open>
  Both period functions write their working columns \<^verbatim>\<open>month_next_period\<close> and
  \<^verbatim>\<open>year_next_period\<close> into the caller's frame, and nothing removes them, so a later call
  finds what an earlier call left. A cell of such a column is \<open>NoColumn\<close> when the frame
  has no such column, \<open>NaN\<close> when the column exists and the row was never assigned, or a
  value.
\<close>

datatype cell = NoColumn | NaN | Val int

text \<open>
  \<^verbatim>\<open>df.loc[mask, col] = v\<close> on one row: the column is created (filled with NaN) when it
  is missing, whatever the mask; the row takes \<open>v\<close> where the mask holds.
\<close>

definition set_loc :: "bool \<Rightarrow> int \<Rightarrow> cell \<Rightarrow> cell" where
  "set_loc sel v c =
     (if sel then Val v else (case c of NoColumn \<Rightarrow> NaN | _ \<Rightarrow> c))"

text \<open>
  \<^verbatim>\<open>pd.to_datetime(dict(year=df[ycol], month=df[mcol], day=1))\<close> on one row: reading a
  missing column is a KeyError, a NaN component gives NaT, a month outside 1..12 cannot be
  assembled.
\<close>

definition to_datetime :: "cell \<Rightarrow> cell \<Rightarrow> error + timestamp option" where
  "to_datetime ycell mcell =
     (case ycell of
        NoColumn \<Rightarrow> Inl (KeyError ''year_next_period'')
      | NaN \<Rightarrow> (case mcell of NoColumn \<Rightarrow> Inl (KeyError ''month_next_period'')
                | _ \<Rightarrow> Inr None)
      | Val y \<Rightarrow>
          (case mcell of
             NoColumn \<Rightarrow> Inl (KeyError ''month_next_period'')
           | NaN \<Rightarrow> Inr None
           | Val m \<Rightarrow>
               if 1 \<le> m \<and> m \<le> 12
               then Inr (Some \<lparr>dt_year = y, dt_month = m, dt_day = 1\<rparr>)
               else Inl (ValueError ''cannot assemble the datetimes'')))"

text \<open>
  The fiscal start month in force: the YTD and QTD branches overwrite
  \<^verbatim>\<open>con['fy_start_month']\<close> with 1 before they use it.
\<close>

definition effective_fy_start_month :: "constants \<Rightarrow> int" where
  "effective_fy_start_month con =
     (if crb_type con = ''YTD'' \<or> crb_type con = ''QTD'' then 1 else fy_start_month con)"

text \<open>A quarter boundary month: \<^verbatim>\<open>(fy_start_month + 3 * k) % 12\<close>, with 0 set to 12.\<close>

definition quarter_month :: "int \<Rightarrow> int \<Rightarrow> int" where
  "quarter_month fy k = (let q = (fy + 3 * k) mod 12 in if q = 0 then 12 else q)"

text \<open>
  One pass of the loop \<^verbatim>\<open>for x in range(0, 4)\<close> of \<^verbatim>\<open>calculate_start_of_next_period\<close>
  on a row of month \<open>m\<close> and year \<open>y\<close>; the pair is (\<^verbatim>\<open>month_next_period\<close>,
  \<^verbatim>\<open>year_next_period\<close>).
\<close>

definition next_quarter_step :: "int \<Rightarrow> int \<Rightarrow> int \<Rightarrow> cell \<times> cell \<Rightarrow> int \<Rightarrow> cell \<times> cell" where
  "next_quarter_step fy m y cs x =
     (let soq = quarter_month fy x;
          eoq = quarter_month fy (x + 1);
          same_year = (m \<ge> soq \<and> m < 10 \<and> m < eoq);
          next_year = (m \<ge> soq \<and> soq \<ge> 10);
          mnp1 = set_loc same_year eoq (fst cs);
          ynp1 = set_loc same_year y (snd cs);
          mnp2 = set_loc next_year eoq mnp1;
          ynp2 = set_loc next_year (y + 1) ynp1
      in (mnp2, ynp2))"

text \<open>
  \<^verbatim>\<open>calculate_start_of_next_period(df, time_col)\<close> on one row: the row's date in
  \<^verbatim>\<open>time_col\<close> and its two working cells go in; the start of the next period and the
  working cells as the call leaves them come out.
\<close>

definition calculate_start_of_next_period ::
  "constants \<Rightarrow> timestamp \<Rightarrow> cell \<times> cell \<Rightarrow> error + (timestamp option \<times> (cell \<times> cell))" where
  "calculate_start_of_next_period con d cs =
     (let month_month = dt_month d;
          month_year = dt_year d;
          fy = effective_fy_start_month con
      in if crb_type con \<in> set [''YTD'', ''FYTD''] then
           (let mnp = Val fy;
                ynp1 = set_loc (month_month < fy) month_year (snd cs);
                ynp2 = set_loc (month_month \<ge> fy) (month_year + 1) ynp1
            in case to_datetime ynp2 mnp of
                 Inl e \<Rightarrow> Inl e
               | Inr t \<Rightarrow> Inr (t, (mnp, ynp2)))
         else if crb_type con \<in> set [''QTD'', ''FQTD''] then
           (let cs' = foldl (next_quarter_step fy month_month month_year) cs [0, 1, 2, 3]
            in case to_datetime (snd cs') (fst cs') of
                 Inl e \<Rightarrow> Inl e
               | Inr t \<Rightarrow> Inr (t, cs'))
         else Inr (Some (add_months d (month_period con)), cs))"

text \<open>
  One pass of the loop of \<^verbatim>\<open>calculate_start_of_current_period\<close>: the same masks, the
  start of the quarter in place of its end, and the year before for a quarter that starts
  in October or later.
\<close>

definition current_quarter_step :: "int \<Rightarrow> int \<Rightarrow> int \<Rightarrow> cell \<times> cell \<Rightarrow> int \<Rightarrow> cell \<times> cell" where
  "current_quarter_step fy m y cs x =
     (let soq = quarter_month fy x;
          eoq = quarter_month fy (x + 1);
          same_year = (m \<ge> soq \<and> m < 10 \<and> m < eoq);
          prev_year = (m \<ge> soq \<and> soq \<ge> 10);
          mnp1 = set_loc same_year soq (fst cs);
          ynp1 = set_loc same_year y (snd cs);
          mnp2 = set_loc prev_year soq mnp1;
          ynp2 = set_loc prev_year (y - 1) ynp1
      in (mnp2, ynp2))"

text \<open>
  \<^verbatim>\<open>calculate_start_of_current_period(df, time_col)\<close> on one row. The YTD/FYTD branch
  stores the fiscal month in \<^verbatim>\<open>month_current_period\<close> and then assembles the date from
  \<^verbatim>\<open>df['month_next_period']\<close>, which this function never writes on that branch: the
  month read is whatever an earlier call left in the frame. Under any other policy than
  the four calendar ones no branch binds the result.
\<close>

definition calculate_start_of_current_period ::
  "constants \<Rightarrow> timestamp \<Rightarrow> cell \<times> cell \<Rightarrow> error + (timestamp option \<times> (cell \<times> cell))" where
  "calculate_start_of_current_period con d cs =
     (let month_month = dt_month d;
          month_year = dt_year d;
          fy = effective_fy_start_month con
      in if crb_type con \<in> set [''YTD'', ''FYTD''] then
           (let ynp1 = set_loc (month_month < fy) (month_year - 1) (snd cs);
                ynp2 = set_loc (month_month \<ge> fy) month_year ynp1
            in case to_datetime ynp2 (fst cs) of
                 Inl e \<Rightarrow> Inl e
               | Inr t \<Rightarrow> Inr (t, (fst cs, ynp2)))
         else if crb_type con \<in> set [''QTD'', ''FQTD''] then
           (let cs' = foldl (current_quarter_step fy month_month month_year) cs [0, 1, 2, 3]
            in case to_datetime (snd cs') (fst cs') of
                 Inl e \<Rightarrow> Inl e
               | Inr t \<Rightarrow> Inr (t, cs'))
         else Inl (UnboundLocalError ''start_of_next_period''))"

text \<open>
  The only call of \<^verbatim>\<open>calculate_start_of_current_period\<close> is in the calendar branch of
  \<^verbatim>\<open>calculate_arr_changes\<close>, on the column \<^verbatim>\<open>month\<close>. main.py runs
  \<^verbatim>\<open>trim_dataset\<close> just before, whose calendar branch calls
  \<^verbatim>\<open>calculate_start_of_next_period(df, 'segment_end_date')\<close> on the same frame and keeps
  the working columns (it only drops \<^verbatim>\<open>seg_end_date_period\<close>). So, on a row that
  survives the trim, the start of the current period is computed on the cells that call
  has left.
\<close>

definition start_of_current_period_after_trim ::
  "constants \<Rightarrow> timestamp \<Rightarrow> timestamp \<Rightarrow> cell \<times> cell \<Rightarrow> error + timestamp option" where
  "start_of_current_period_after_trim con segment_end_date mth cs =
     (case calculate_start_of_next_period con segment_end_date cs of
        Inl e \<Rightarrow> Inl e
      | Inr (seg_end_date_period, cs1) \<Rightarrow>
          (case calculate_start_of_current_period con mth cs1 of
             Inl e \<Rightarrow> Inl e
           | Inr (start_of_current_period, cs2) \<Rightarrow> Inr start_of_current_period))"

section \<open>Rows of the bridge\<close>

text \<open>
  A row as \<^verbatim>\<open>calculate_segment_start_end_dates\<close> and \<^verbatim>\<open>trim_dataset\<close> leave it: the
  encoded primary key, the month, the ARR, the lifespan dates merged onto it and the two
  working columns of the period calculator. Each later stage adds columns, so each stage
  has the record of the stage before, extended: a frame that has not been through a stage
  has no column of that stage.
\<close>

record seg_row =
  primary_key :: nat
  month :: timestamp
  arr :: real
  customer_start_date :: timestamp
  customer_churn_date :: timestamp
  product_start_date :: timestamp
  product_churn_date :: timestamp
  month_next_period :: cell
  year_next_period :: cell

record arr_row = seg_row +
  arr_bop :: real
  arr_delta :: real

record churn_row = arr_row +
  new_customer_flag :: int
  customer_churn_flag :: int

record cross_row = churn_row +
  cross_sell_flag :: int
  product_churn_flag :: int

record upsell_row = cross_row +
  existing_customer_flag :: int
  existing_product_flag :: int
  upsell_flag :: int
  downsell_flag :: int

record delta_row = upsell_row +
  new_customer_delta :: real
  customer_churn_delta :: real
  cross_sell_delta :: real
  product_churn_delta :: real
  upsell_delta :: real
  downsell_delta :: real

text \<open>
  A vectorised step that can raise: the rows are processed in order and the first error
  aborts the whole step. Where pandas treats a frame without rows differently from one
  with rows, the frame-level definition says so (\<open>crb_upsell_flags\<close>); the statements
  below that a step returns are about frames with rows.
\<close>

fun traverse :: "('a \<Rightarrow> error + 'b) \<Rightarrow> 'a list \<Rightarrow> error + 'b list" where
  "traverse f [] = Inr []"
| "traverse f (x # xs) =
     (case f x of
        Inl e \<Rightarrow> Inl e
      | Inr y \<Rightarrow> (case traverse f xs of Inl e \<Rightarrow> Inl e | Inr ys \<Rightarrow> Inr (y # ys)))"

section \<open>Row-level bucket classifier (arr_changes)\<close>

text \<open>
  The lookup table of the fixed-N policy:
  \<^verbatim>\<open>dict = {}; for x in range(lo, hi): dict[x] = 1\<close>, kept as its list of keys, and
  \<^verbatim>\<open>time_diff.map(dict).fillna(0)\<close> on one row.
\<close>

definition flag_dict :: "int \<Rightarrow> int \<Rightarrow> int list" where
  "flag_dict lo hi = [lo..hi - 1]"

definition map_fillna :: "int list \<Rightarrow> int \<Rightarrow> int" where
  "map_fillna keys d = (if d \<in> set keys then 1 else 0)"

text \<open>
  The three lines every calendar-policy loop body starts with, on one row: the start of
  the period after the anchor date, the months from the anchor to the row's month, and
  the months from the anchor to that period start (NaN when it is NaT).
\<close>

definition period_diffs ::
  "constants \<Rightarrow> timestamp \<Rightarrow> timestamp \<Rightarrow> cell \<times> cell
     \<Rightarrow> error + (int \<times> int option \<times> (cell \<times> cell))" where
  "period_diffs con anchor mth cs =
     (case calculate_start_of_next_period con anchor cs of
        Inl e \<Rightarrow> Inl e
      | Inr (start_of_next_period, cs') \<Rightarrow>
          Inr (calculate_month_difference anchor mth,
               month_difference_nat anchor start_of_next_period, cs'))"

text \<open>
  \<^verbatim>\<open>ChurnNewLogo.crb_add_churn_flags\<close> on one row, and on the frame. A frame without
  rows carries no cells, so the model cannot tell whether it has the working columns: the
  code raises on such a frame under QTD and FQTD when the columns are missing (a scalar
  cannot be set into a new column of an empty frame) and returns it when they are there;
  the model returns it. The same holds of \<^verbatim>\<open>crb_add_cross_sell_flags\<close>.
\<close>

definition churn_flags_row :: "constants \<Rightarrow> arr_row \<Rightarrow> error + churn_row" where
  "churn_flags_row con r =
     (if crb_number_months con then
        (let keys = flag_dict 0 (month_period con)
         in Inr (arr_row.extend r (churn_row.fields
              (map_fillna keys (calculate_month_difference (customer_start_date r) (month r)))
              (map_fillna keys (calculate_month_difference (customer_churn_date r) (month r))))))
      else
        (case period_diffs con (customer_start_date r) (month r)
                (month_next_period r, year_next_period r) of
           Inl e \<Rightarrow> Inl e
         | Inr (time_diff1, next_period_diff1, cs1) \<Rightarrow>
             (case period_diffs con (customer_churn_date r) (month r) cs1 of
                Inl e \<Rightarrow> Inl e
              | Inr (time_diff2, next_period_diff2, cs2) \<Rightarrow>
                  Inr (arr_row.extend
                         (r\<lparr>month_next_period := fst cs2, year_next_period := snd cs2\<rparr>)
                         (churn_row.fields
                            (if nan_less time_diff1 next_period_diff1 \<and> time_diff1 > 0
                             then 1 else 0)
                            (if nan_less time_diff2 next_period_diff2 \<and> time_diff2 > 0
                             then 1 else 0))))))"

definition crb_add_churn_flags :: "constants \<Rightarrow> arr_row list \<Rightarrow> error + churn_row list" where
  "crb_add_churn_flags con df = traverse (churn_flags_row con) df"

text \<open>
  \<^verbatim>\<open>DowngradeCrossSell.crb_add_cross_sell_flags\<close>. Under the fixed-N policy the mapped
  value is assigned only where \<^verbatim>\<open>not_new_or_churn\<close> holds; the other rows of the new
  column are NaN, and \<^verbatim>\<open>fillna(0)\<close> makes them 0.
\<close>

definition cross_sell_flags_row :: "constants \<Rightarrow> churn_row \<Rightarrow> error + cross_row" where
  "cross_sell_flags_row con r =
     (let not_new_or_churn = (new_customer_flag r = 0 \<and> customer_churn_flag r = 0)
      in if crb_number_months con then
        (let keys = flag_dict 0 (month_period con)
         in Inr (churn_row.extend r (cross_row.fields
              (if not_new_or_churn
               then map_fillna keys (calculate_month_difference (product_start_date r) (month r))
               else 0)
              (if not_new_or_churn
               then map_fillna keys (calculate_month_difference (product_churn_date r) (month r))
               else 0))))
      else
        (case period_diffs con (product_start_date r) (month r)
                (month_next_period r, year_next_period r) of
           Inl e \<Rightarrow> Inl e
         | Inr (time_diff1, next_period_diff1, cs1) \<Rightarrow>
             (case period_diffs con (product_churn_date r) (month r) cs1 of
                Inl e \<Rightarrow> Inl e
              | Inr (time_diff2, next_period_diff2, cs2) \<Rightarrow>
                  Inr (churn_row.extend
                         (r\<lparr>month_next_period := fst cs2, year_next_period := snd cs2\<rparr>)
                         (cross_row.fields
                            (if not_new_or_churn \<and> nan_less time_diff1 next_period_diff1
                                \<and> time_diff1 > 0
                             then 1 else 0)
                            (if not_new_or_churn \<and> nan_less time_diff2 next_period_diff2
                                \<and> time_diff2 > 0
                             then 1 else 0))))))"

definition crb_add_cross_sell_flags :: "constants \<Rightarrow> churn_row list \<Rightarrow> error + cross_row list" where
  "crb_add_cross_sell_flags con df = traverse (cross_sell_flags_row con) df"

text \<open>
  \<^verbatim>\<open>DownsellUpsell.crb_upsell_flags\<close>. The existing-entity flags come first: under the
  fixed-N policy from the lookup table \<^verbatim>\<open>range(con['month_period'], 100)\<close>, under a
  calendar policy from the comparison with the distance to the next period. The mask and
  the two flags follow; \<^verbatim>\<open>df.loc[upsell_bool, 'upsell_flag'] = 1\<close> creates the column and
  \<^verbatim>\<open>fillna(0)\<close> completes it.
\<close>

definition upsell_mask :: "cross_row \<Rightarrow> int \<Rightarrow> int \<Rightarrow> bool" where
  "upsell_mask r existing_customer existing_product =
     (new_customer_flag r = 0 \<and> customer_churn_flag r = 0 \<and>
      cross_sell_flag r = 0 \<and> product_churn_flag r = 0 \<and>
      existing_customer = 1 \<and> existing_product = 1)"

definition upsell_downsell ::
  "cross_row \<Rightarrow> int \<Rightarrow> int \<Rightarrow> upsell_row" where
  "upsell_downsell r existing_customer existing_product =
     (let msk = upsell_mask r existing_customer existing_product;
          upsell_bool = (arr_delta r > 0 \<and> msk);
          downsell_bool = (arr_delta r < 0 \<and> msk)
      in cross_row.extend r (upsell_row.fields existing_customer existing_product
           (if upsell_bool then 1 else 0) (if downsell_bool then 1 else 0)))"

definition upsell_flags_row :: "constants \<Rightarrow> cross_row \<Rightarrow> error + upsell_row" where
  "upsell_flags_row con r =
     (if crb_number_months con then
        (let keys = flag_dict (month_period con) 100;
             cust_start_diff = calculate_month_difference (customer_start_date r) (month r);
             prod_start_diff = calculate_month_difference (product_start_date r) (month r)
         in Inr (upsell_downsell r (map_fillna keys cust_start_diff)
                                   (map_fillna keys prod_start_diff)))
      else
        (case period_diffs con (customer_start_date r) (month r)
                (month_next_period r, year_next_period r) of
           Inl e \<Rightarrow> Inl e
         | Inr (cust_start_diff, cust_next_period_diff, cs1) \<Rightarrow>
             (case period_diffs con (product_start_date r) (month r) cs1 of
                Inl e \<Rightarrow> Inl e
              | Inr (prod_start_diff, prod_next_period_diff, cs2) \<Rightarrow>
                  Inr (upsell_downsell
                         (r\<lparr>month_next_period := fst cs2, year_next_period := snd cs2\<rparr>)
                         (if nan_ge cust_start_diff cust_next_period_diff then 1 else 0)
                         (if nan_ge prod_start_diff prod_next_period_diff then 1 else 0)))))"

text \<open>
  On the frame: \<^verbatim>\<open>df.loc[upsell_bool, 'upsell_flag'] = 1\<close> sets a scalar into a column
  that does not exist yet, which pandas refuses on a frame without rows.
\<close>

definition crb_upsell_flags :: "constants \<Rightarrow> cross_row list \<Rightarrow> error + upsell_row list" where
  "crb_upsell_flags con df =
     (if df = []
      then Inl (ValueError ''cannot set a frame with no defined index and a scalar'')
      else traverse (upsell_flags_row con) df)"

text \<open>The three classifier steps in the order main.py runs them.\<close>

definition classify :: "constants \<Rightarrow> arr_row list \<Rightarrow> error + upsell_row list" where
  "classify con df =
     (case crb_add_churn_flags con df of
        Inl e \<Rightarrow> Inl e
      | Inr df1 \<Rightarrow>
          (case crb_add_cross_sell_flags con df1 of
             Inl e \<Rightarrow> Inl e
           | Inr df2 \<Rightarrow> crb_upsell_flags con df2))"

section \<open>ARR delta allocator (crb_functions.py)\<close>

text \<open>
  \<^verbatim>\<open>df.sort_values(['primary_key', 'month'])\<close>. Primary keys are unique per month when
  the frame gets here (main.py checks it), so the order of equal keys never matters.
\<close>

definition month_key :: "seg_row \<Rightarrow> nat \<times> int \<times> int \<times> int" where
  "month_key r = (primary_key r, dt_year (month r), dt_month (month r), dt_day (month r))"

definition sort_values :: "seg_row list \<Rightarrow> seg_row list" where
  "sort_values df = sort_key month_key df"

text \<open>
  \<^verbatim>\<open>df.groupby('primary_key')['arr'].shift(periods=n).fillna(0)\<close> for the row at
  position \<open>i\<close> of the sorted frame: the ARR of the row \<open>n\<close> places earlier in the same
  group, 0 when there is none.
\<close>

definition group_shift :: "int \<Rightarrow> seg_row list \<Rightarrow> nat \<Rightarrow> real" where
  "group_shift n df i =
     (let same_key = (\<lambda>q. primary_key q = primary_key (df ! i));
          grp = filter same_key df;
          j = int (length (filter same_key (take i df))) - n
      in if 0 \<le> j \<and> j < int (length grp) then arr (grp ! nat j) else 0)"

text \<open>The two new columns: \<^verbatim>\<open>arr_bop\<close> and \<^verbatim>\<open>arr_delta = arr - arr_bop\<close>.\<close>

definition with_arr_bop :: "seg_row \<Rightarrow> real \<Rightarrow> arr_row" where
  "with_arr_bop r bop = seg_row.extend r (arr_row.fields bop (arr r - bop))"

text \<open>
  The calendar branch: \<^verbatim>\<open>start_of_current_period\<close> on every row, then the left merge
  of the frame with its own (\<^verbatim>\<open>primary_key\<close>, \<^verbatim>\<open>month\<close>, \<^verbatim>\<open>arr\<close>) columns on
  (\<^verbatim>\<open>primary_key\<close>, \<^verbatim>\<open>start_of_current_period\<close>): one output row per match, and one
  row with \<^verbatim>\<open>arr_bop\<close> filled with 0 when nothing matches (a NaT never matches).
\<close>

definition current_period_row :: "constants \<Rightarrow> seg_row \<Rightarrow> error + (seg_row \<times> timestamp option)" where
  "current_period_row con r =
     (case calculate_start_of_current_period con (month r)
             (month_next_period r, year_next_period r) of
        Inl e \<Rightarrow> Inl e
      | Inr (start_of_current_period, cs) \<Rightarrow>
          Inr (r\<lparr>month_next_period := fst cs, year_next_period := snd cs\<rparr>,
               start_of_current_period))"

definition merge_left :: "seg_row list \<Rightarrow> seg_row \<times> timestamp option \<Rightarrow> arr_row list" where
  "merge_left df_arr l =
     (let matches = filter (\<lambda>q. primary_key q = primary_key (fst l) \<and> Some (month q) = snd l)
                      df_arr
      in if matches = [] then [with_arr_bop (fst l) 0]
         else map (\<lambda>q. with_arr_bop (fst l) (arr q)) matches)"

text \<open>\<^verbatim>\<open>CustomerRevenueBridgeImplementation.calculate_arr_changes\<close>.\<close>

definition calculate_arr_changes :: "constants \<Rightarrow> seg_row list \<Rightarrow> error + arr_row list" where
  "calculate_arr_changes con df0 =
     (let df = sort_values df0
      in if crb_number_months con then
           Inr (map (\<lambda>i. with_arr_bop (df ! i) (group_shift (month_period con) df i))
                  [0..<length df])
         else
           (case traverse (current_period_row con) df of
              Inl e \<Rightarrow> Inl e
            | Inr dfp \<Rightarrow> Inr (concat (map (merge_left (map fst dfp)) dfp))))"

text \<open>
  \<^verbatim>\<open>create_arr_deltas\<close>: for every column whose name has \<^verbatim>\<open>flag\<close> and not
  \<^verbatim>\<open>existing\<close> in it, the column \<^verbatim>\<open>col.replace('flag', 'delta')\<close> is the flag times
  \<^verbatim>\<open>arr_delta\<close>.
\<close>

definition arr_deltas_row :: "upsell_row \<Rightarrow> delta_row" where
  "arr_deltas_row r =
     upsell_row.extend r (delta_row.fields
       (of_int (new_customer_flag r) * arr_delta r)
       (of_int (customer_churn_flag r) * arr_delta r)
       (of_int (cross_sell_flag r) * arr_delta r)
       (of_int (product_churn_flag r) * arr_delta r)
       (of_int (upsell_flag r) * arr_delta r)
       (of_int (downsell_flag r) * arr_delta r))"

definition create_arr_deltas :: "upsell_row list \<Rightarrow> delta_row list" where
  "create_arr_deltas df = map arr_deltas_row df"

text \<open>
  \<^verbatim>\<open>create_flattened_output(df, df_dim)\<close>, as far as the delta columns go: the rows
  from 2012-01-01 on are kept, the columns are renamed, and the dimension table is
  left-merged on \<^verbatim>\<open>primary_key\<close>. The dimension table is given by the primary keys of
  its rows: a row of the frame comes out once per dimension row of its key, and once when
  its key has none.
\<close>

definition timestamp_le :: "timestamp \<Rightarrow> timestamp \<Rightarrow> bool" where
  "timestamp_le a b =
     ((dt_year a, dt_month a, dt_day a) \<le> (dt_year b, dt_month b, dt_day b))"

definition merge_dimensions :: "nat list \<Rightarrow> delta_row \<Rightarrow> delta_row list" where
  "merge_dimensions df_dim r =
     (let matches = filter (\<lambda>k. k = primary_key r) df_dim
      in if matches = [] then [r] else map (\<lambda>k. r) matches)"

definition create_flattened_output :: "delta_row list \<Rightarrow> nat list \<Rightarrow> delta_row list" where
  "create_flattened_output df df_dim =
     concat (map (merge_dimensions df_dim)
       (filter (\<lambda>r. timestamp_le \<lparr>dt_year = 2012, dt_month = 1, dt_day = 1\<rparr> (month r)) df))"

text \<open>
  Modelled from the spec: the renaming table \<^verbatim>\<open>tableau_col_mapping\<close> of config.yaml is
  not among the sources. The flattened names follow the specification's buckets: new
  customer, churn (of the customer), cross-sell, downgrade (churn of a product), upsell
  and downsell.
\<close>

definition Delta_New_Customer :: "delta_row \<Rightarrow> real" where
  "Delta_New_Customer r = new_customer_delta r"

definition Delta_Churn :: "delta_row \<Rightarrow> real" where
  "Delta_Churn r = customer_churn_delta r"

definition Delta_Cross_Sell :: "delta_row \<Rightarrow> real" where
  "Delta_Cross_Sell r = cross_sell_delta r"

definition Delta_Downgrade :: "delta_row \<Rightarrow> real" where
  "Delta_Downgrade r = product_churn_delta r"

definition Delta_Upsell :: "delta_row \<Rightarrow> real" where
  "Delta_Upsell r = upsell_delta r"

definition Delta_Downsell :: "delta_row \<Rightarrow> real" where
  "Delta_Downsell r = downsell_delta r"

section \<open>Validation checks (crb_checks.py)\<close>

text \<open>
  The three directionality checks. Each filters the offending rows and raises when any is
  left (\<^verbatim>\<open>drop_duplicates\<close> leaves a non-empty frame non-empty).
\<close>

definition check_no_positive_churn :: "delta_row list \<Rightarrow> error + unit" where
  "check_no_positive_churn df =
     (if length (filter (\<lambda>r. Delta_Churn r > 0) df) > 0
      then Inl (ValueError ''Customers in the dataset have positive churn'')
      else if length (filter (\<lambda>r. Delta_Downgrade r > 0) df) > 0
      then Inl (ValueError ''Customers in the dataset have positive product churn'')
      else Inr ())"

definition check_no_negative_new_logo :: "delta_row list \<Rightarrow> error + unit" where
  "check_no_negative_new_logo df =
     (if length (filter (\<lambda>r. Delta_New_Customer r < 0) df) > 0
      then Inl (ValueError ''Customers in the dataset have negative new logo.'')
      else if length (filter (\<lambda>r. Delta_Cross_Sell r < 0) df) > 0
      then Inl (ValueError ''Customers in the dataset have negative cross-sell.'')
      else Inr ())"

definition check_upsell_downsell_direction :: "delta_row list \<Rightarrow> error + unit" where
  "check_upsell_downsell_direction df =
     (if length (filter (\<lambda>r. Delta_Upsell r < 0) df) > 0
      then Inl (ValueError ''Customers in the dataset have negative upsell.'')
      else if length (filter (\<lambda>r. Delta_Downsell r > 0) df) > 0
      then Inl (ValueError ''Customers in the dataset have positive downsell.'')
      else Inr ())"

text \<open>
  main.py from \<^verbatim>\<open>calculate_arr_changes\<close> to the flattened table (\<open>df_dim\<close> is the
  dimension table that \<^verbatim>\<open>drop_dimensions_columns\<close> has set aside), and the checks it
  runs on that table, in its order.
\<close>

definition flat_file :: "constants \<Rightarrow> nat list \<Rightarrow> seg_row list \<Rightarrow> error + delta_row list" where
  "flat_file con df_dim df =
     (case calculate_arr_changes con df of
        Inl e \<Rightarrow> Inl e
      | Inr df1 \<Rightarrow>
          (case classify con df1 of
             Inl e \<Rightarrow> Inl e
           | Inr df2 \<Rightarrow> Inr (create_flattened_output (create_arr_deltas df2) df_dim)))"

definition directionality_checks :: "delta_row list \<Rightarrow> error + unit" where
  "directionality_checks df =
     (case check_no_positive_churn df of
        Inl e \<Rightarrow> Inl e
      | Inr u \<Rightarrow>
          (case check_no_negative_new_logo df of
             Inl e \<Rightarrow> Inl e
           | Inr u \<Rightarrow> check_upsell_downsell_direction df))"

section \<open>Configuration check (crb_checks.py)\<close>

text \<open>
  \<^verbatim>\<open>check_config_time_period\<close> reads the configuration as YAML gives it: a value of any
  scalar type, or no value at all under a key. \<open>YNull\<close> is None; a YAML sequence or
  mapping fails every test of this function the way None does (it is no policy name and
  no number, and comparing it with an int is a TypeError), so it needs no constructor of
  its own.
\<close>

datatype yaml = YInt int | YFloat real | YBool bool | YStr string | YNull

record raw_constants =
  raw_crb_type :: "yaml option"
  raw_month_period :: "yaml option"
  raw_fy_start_month :: "yaml option"

text \<open>
  \<^verbatim>\<open>isinstance(v, numbers.Number)\<close> holds of ints, floats and bools, and the
  comparisons \<^verbatim>\<open>v <= 12\<close>, \<^verbatim>\<open>v > 0\<close> raise a TypeError on a string or on None.
\<close>

definition is_number :: "yaml \<Rightarrow> bool" where
  "is_number v = (case v of YInt _ \<Rightarrow> True | YFloat _ \<Rightarrow> True | YBool _ \<Rightarrow> True | _ \<Rightarrow> False)"

definition number_value :: "yaml \<Rightarrow> real option" where
  "number_value v =
     (case v of
        YInt i \<Rightarrow> Some (of_int i)
      | YFloat x \<Rightarrow> Some x
      | YBool b \<Rightarrow> Some (if b then 1 else 0)
      | _ \<Rightarrow> None)"

definition crb_type_options :: "string list" where
  "crb_type_options = [''number_of_months'', ''YTD'', ''QTD'', ''FYTD'', ''FQTD'']"

text \<open>The branch of \<^verbatim>\<open>crb_type == 'number_of_months'\<close>.\<close>

definition check_month_period :: "raw_constants \<Rightarrow> error + unit" where
  "check_month_period con =
     (case raw_month_period con of
        None \<Rightarrow> Inl (KeyError ''month_period'')
      | Some mp \<Rightarrow>
          if is_number mp then Inr ()
          else Inl (ValueError ''Please select a valid number of months in the con file.''))"

text \<open>
  The branch of \<^verbatim>\<open>crb_type in ['FYTD', 'FQTD']\<close>. The three operands of \<^verbatim>\<open>&\<close> are all
  evaluated. On success the branch prints the name of the month,
  \<^verbatim>\<open>pd.to_datetime(con['fy_start_month'], format='%m').strftime('%B')\<close>; whether pandas
  can parse the value as a month is the parameter \<open>month_name_ok\<close>.
\<close>

definition check_fy_start_month :: "(yaml \<Rightarrow> bool) \<Rightarrow> raw_constants \<Rightarrow> error + unit" where
  "check_fy_start_month month_name_ok con =
     (case raw_fy_start_month con of
        None \<Rightarrow> Inl (KeyError ''fy_start_month'')
      | Some fy \<Rightarrow>
          (case number_value fy of
             None \<Rightarrow> Inl (TypeError ''<= not supported'')
           | Some v \<Rightarrow>
               if is_number fy \<and> v \<le> 12 \<and> v > 0 then
                 (if month_name_ok fy then Inr ()
                  else Inl (ValueError ''time data does not match format''))
               else Inl (ValueError ''Please select a valid FY start month in the config file.'')))"

definition check_config_time_period :: "(yaml \<Rightarrow> bool) \<Rightarrow> raw_constants \<Rightarrow> error + unit" where
  "check_config_time_period month_name_ok con =
     (case raw_crb_type con of
        None \<Rightarrow> Inl (KeyError ''crb_type'')
      | Some t \<Rightarrow>
          if t \<notin> set (map YStr crb_type_options)
          then Inl (KeyError ''CRB type selected not valid'')
          else
            (case (if t = YStr ''number_of_months'' then check_month_period con else Inr ()) of
               Inl e \<Rightarrow> Inl e
             | Inr u \<Rightarrow>
                 if t \<in> set [YStr ''FYTD'', YStr ''FQTD'']
                 then check_fy_start_month month_name_ok con
                 else Inr ()))"

section \<open>Waterfall reconciliation (crb_checks.py)\<close>

text \<open>
  Amounts are exact real numbers here, where pandas has 64-bit floats.
  \<^verbatim>\<open>Series.round(2)\<close> is numpy's rounding: the value times 100 is rounded to the nearest
  integer, a tie to the even one, and divided by 100.
\<close>

definition rint :: "real \<Rightarrow> int" where
  "rint x =
     (let f = \<lfloor>x\<rfloor>; d = x - of_int f
      in if d < 1 / 2 then f else if d > 1 / 2 then f + 1
         else if even f then f else f + 1)"

definition round2 :: "real \<Rightarrow> real" where
  "round2 x = of_int (rint (x * 100)) / 100"

text \<open>
  The columns \<^verbatim>\<open>check_waterfall_sums\<close> reads: of the waterfall frame
  \<^verbatim>\<open>primary_key\<close>, \<^verbatim>\<open>Customer_ID\<close>, \<^verbatim>\<open>Month\<close>, \<^verbatim>\<open>Value type\<close> and
  \<^verbatim>\<open>Value yearly\<close>; of the initial frame \<^verbatim>\<open>customer_id\<close>, \<^verbatim>\<open>month\<close>, \<^verbatim>\<open>arr\<close> and,
  when the frame has it, \<^verbatim>\<open>is_recurring\<close>.
\<close>

record waterfall_row =
  waterfall_primary_key :: nat
  Customer_ID :: nat
  Month :: timestamp
  Value_type :: string
  Value_yearly :: real

record initial_row =
  initial_customer_id :: nat
  initial_month :: timestamp
  initial_arr :: real
  is_recurring :: int

text \<open>
  \<^verbatim>\<open>groupby(key)[value].sum()\<close> on a list of (key, value) pairs: one entry per key, with
  the total of the key's values.
\<close>

definition group_total :: "('k \<times> real) list \<Rightarrow> 'k \<Rightarrow> real" where
  "group_total kvs k = sum_list (map snd (filter (\<lambda>kv. fst kv = k) kvs))"

definition groupby_sum :: "('k \<times> real) list \<Rightarrow> ('k \<times> real) list" where
  "groupby_sum kvs = map (\<lambda>k. (k, group_total kvs k)) (remdups (map fst kvs))"

definition series_round2 :: "('k \<times> real) list \<Rightarrow> ('k \<times> real) list" where
  "series_round2 d = map (\<lambda>kv. (fst kv, round2 (snd kv))) d"

text \<open>Equality of two Python dicts given as lists of items with distinct keys.\<close>

definition dict_eq :: "('k \<times> real) list \<Rightarrow> ('k \<times> real) list \<Rightarrow> bool" where
  "dict_eq d1 d2 =
     (set (map fst d1) = set (map fst d2) \<and>
      list_all (\<lambda>kv. map_of d2 (fst kv) = Some (snd kv)) d1)"

definition not_eop :: "waterfall_row list \<Rightarrow> waterfall_row list" where
  "not_eop df_waterfall = filter (\<lambda>w. Value_type w \<noteq> ''EoP ARR'') df_waterfall"

definition only_eop :: "waterfall_row list \<Rightarrow> waterfall_row list" where
  "only_eop df_waterfall = filter (\<lambda>w. Value_type w = ''EoP ARR'') df_waterfall"

text \<open>
  The first check: the total per primary key of every category but \<^verbatim>\<open>EoP ARR\<close>, and the
  keys whose total does not round to 0.
\<close>

definition check_sum_rows :: "waterfall_row list \<Rightarrow> (nat \<times> real) list" where
  "check_sum_rows df_waterfall =
     filter (\<lambda>kv. round2 (snd kv) \<noteq> 0)
       (groupby_sum (map (\<lambda>w. (waterfall_primary_key w, Value_yearly w)) (not_eop df_waterfall)))"

text \<open>\<^verbatim>\<open>df_initial.loc[df_initial['is_recurring'] != 1, 'arr'] = 0\<close>, when the column exists.\<close>

definition recurring_only :: "bool \<Rightarrow> initial_row list \<Rightarrow> initial_row list" where
  "recurring_only has_is_recurring df_initial =
     (if has_is_recurring
      then map (\<lambda>r. if is_recurring r \<noteq> 1 then r\<lparr>initial_arr := 0\<rparr> else r) df_initial
      else df_initial)"

text \<open>The annual totals of the two frames, rounded, as dicts from year to total.\<close>

definition revenue_by_year :: "initial_row list \<Rightarrow> (int \<times> real) list" where
  "revenue_by_year df_initial =
     series_round2 (groupby_sum (map (\<lambda>r. (dt_year (initial_month r), initial_arr r)) df_initial))"

definition revenue_by_year_waterfall :: "waterfall_row list \<Rightarrow> (int \<times> real) list" where
  "revenue_by_year_waterfall df_waterfall =
     series_round2 (groupby_sum (map (\<lambda>w. (dt_year (Month w), Value_yearly w)) df_waterfall))"

text \<open>
  The diagnostic frame printed under "Incorrect customers": the rounded totals per year
  and customer of both frames, left-merged, and the rows that differ by more than 0.1. A
  customer-year with no waterfall total has NaN on the right and is not listed.
\<close>

definition customer_diff ::
  "initial_row list \<Rightarrow> waterfall_row list \<Rightarrow> ((int \<times> nat) \<times> real \<times> real) list" where
  "customer_diff df_initial df_waterfall =
     (let df_revenue_by_year = series_round2 (groupby_sum
            (map (\<lambda>r. ((dt_year (initial_month r), initial_customer_id r), initial_arr r))
               df_initial));
          df_revenue_by_year_waterfall = series_round2 (groupby_sum
            (map (\<lambda>w. ((dt_year (Month w), Customer_ID w), Value_yearly w)) df_waterfall))
      in concat (map (\<lambda>kv.
           (case map_of df_revenue_by_year_waterfall (fst kv) of
              None \<Rightarrow> []
            | Some v \<Rightarrow> if \<bar>snd kv - v\<bar> > 1 / 10 then [(fst kv, snd kv, v)] else []))
           df_revenue_by_year))"

text \<open>
  \<^verbatim>\<open>check_waterfall_sums(df_initial, df_waterfall)\<close>. The result is the diagnostic frame,
  when one is printed, and the outcome. \<open>has_is_recurring\<close> says whether
  \<^verbatim>\<open>df_initial\<close> has the column \<^verbatim>\<open>is_recurring\<close>.
\<close>

definition check_waterfall_sums ::
  "bool \<Rightarrow> initial_row list \<Rightarrow> waterfall_row list
     \<Rightarrow> ((int \<times> nat) \<times> real \<times> real) list option \<times> (error + unit)" where
  "check_waterfall_sums has_is_recurring df_initial df_waterfall =
     (if length (check_sum_rows df_waterfall) > 0
      then (None, Inl (ValueError ''Waterfall does not sum to zero''))
      else
        (let df_initial' = recurring_only has_is_recurring df_initial;
             df_eop = only_eop df_waterfall
         in if dict_eq (revenue_by_year df_initial') (revenue_by_year_waterfall df_eop)
            then (None, Inr ())
            else (Some (customer_diff df_initial' df_eop),
                  Inl (ValueError ''Waterfall sums are not equal.''))))"


section \<open>Well-formed inputs and the properties of a row\<close>

text \<open>
  The period calculator raises when it has to assemble a date from a month outside 1..12.
  Such a month can only come from \<^verbatim>\<open>fy_start_month\<close> under the FYTD policy, which
  \<^verbatim>\<open>check_config_time_period\<close> rejects, or from a \<^verbatim>\<open>month_next_period\<close> column that
  is already in the frame.
\<close>

definition month_cell_ok :: "cell \<Rightarrow> bool" where
  "month_cell_ok c = (case c of Val m \<Rightarrow> 1 \<le> m \<and> m \<le> 12 | _ \<Rightarrow> True)"

definition policy_ok :: "constants \<Rightarrow> bool" where
  "policy_ok con =
     (if crb_type con = ''FYTD'' then 1 \<le> fy_start_month con \<and> fy_start_month con \<le> 12
      else True)"

definition period_ready :: "constants \<Rightarrow> cell \<Rightarrow> bool" where
  "period_ready con c = (crb_number_months con \<or> policy_ok con \<and> month_cell_ok c)"

text \<open>What \<^verbatim>\<open>crb_upsell_flags\<close> promises of a row \<open>r\<close> and the row \<open>r'\<close> it makes of it.\<close>

definition upsell_row_ok :: "cross_row \<Rightarrow> upsell_row \<Rightarrow> bool" where
  "upsell_row_ok r r' =
     ((upsell_flag r' = 1 \<longleftrightarrow>
         arr_delta r > 0 \<and> new_customer_flag r = 0 \<and> customer_churn_flag r = 0 \<and>
         cross_sell_flag r = 0 \<and> product_churn_flag r = 0 \<and>
         existing_customer_flag r' = 1 \<and> existing_product_flag r' = 1) \<and>
      (downsell_flag r' = 1 \<longleftrightarrow>
         arr_delta r < 0 \<and> new_customer_flag r = 0 \<and> customer_churn_flag r = 0 \<and>
         cross_sell_flag r = 0 \<and> product_churn_flag r = 0 \<and>
         existing_customer_flag r' = 1 \<and> existing_product_flag r' = 1) \<and>
      (upsell_flag r' = 0 \<or> upsell_flag r' = 1) \<and>
      (downsell_flag r' = 0 \<or> downsell_flag r' = 1) \<and>
      \<not> (upsell_flag r' = 1 \<and> downsell_flag r' = 1))"

text \<open>The exclusion the three classifier steps enforce between the groups of buckets.\<close>

definition buckets_grouped :: "upsell_row \<Rightarrow> bool" where
  "buckets_grouped r =
     ((if new_customer_flag r = 1 \<or> customer_churn_flag r = 1
       then cross_sell_flag r = 0 \<and> product_churn_flag r = 0 \<and>
            upsell_flag r = 0 \<and> downsell_flag r = 0
       else True) \<and>
      (if cross_sell_flag r = 1 \<or> product_churn_flag r = 1
       then upsell_flag r = 0 \<and> downsell_flag r = 0
       else True) \<and>
      \<not> (upsell_flag r = 1 \<and> downsell_flag r = 1))"


section \<open>Example inputs\<close>

text \<open>Shorthands for the concrete dates, configurations and rows the examples below run on.\<close>

definition ts :: "int \<Rightarrow> int \<Rightarrow> int \<Rightarrow> timestamp" where
  "ts y m d = \<lparr>dt_year = y, dt_month = m, dt_day = d\<rparr>"

definition fixed_window :: "int \<Rightarrow> constants" where
  "fixed_window n = \<lparr>crb_type = ''number_of_months'', month_period = n, fy_start_month = 1\<rparr>"

definition calendar_policy :: "string \<Rightarrow> int \<Rightarrow> constants" where
  "calendar_policy p fy = \<lparr>crb_type = p, month_period = 12, fy_start_month = fy\<rparr>"

text \<open>
  A row of a customer with one product: start date, churn date, the row's month, its ARR
  and its ARR at the beginning of the period.
\<close>

definition customer_row :: "timestamp \<Rightarrow> timestamp \<Rightarrow> timestamp \<Rightarrow> real \<Rightarrow> real \<Rightarrow> arr_row" where
  "customer_row start churn m a bop =
     \<lparr>primary_key = 0, month = m, arr = a,
      customer_start_date = start, customer_churn_date = churn,
      product_start_date = start, product_churn_date = churn,
      month_next_period = NoColumn, year_next_period = NoColumn,
      arr_bop = bop, arr_delta = a - bop\<rparr>"

text \<open>A row with the four flags of the first two classifier steps already on it.\<close>

definition flagged_row :: "arr_row \<Rightarrow> int \<Rightarrow> int \<Rightarrow> int \<Rightarrow> int \<Rightarrow> cross_row" where
  "flagged_row r new_customer customer_churn cross_sell product_churn =
     churn_row.extend (arr_row.extend r (churn_row.fields new_customer customer_churn))
       (cross_row.fields cross_sell product_churn)"

text \<open>
  A row as \<^verbatim>\<open>trim_dataset\<close> leaves it, with the working cells of the period calculator
  that its call on \<^verbatim>\<open>segment_end_date\<close> has written.
\<close>

definition trimmed_row :: "timestamp \<Rightarrow> timestamp \<Rightarrow> timestamp \<Rightarrow> real \<Rightarrow> cell \<times> cell \<Rightarrow> seg_row" where
  "trimmed_row start churn m a cs =
     \<lparr>primary_key = 0, month = m, arr = a,
      customer_start_date = start, customer_churn_date = churn,
      product_start_date = start, product_churn_date = churn,
      month_next_period = fst cs, year_next_period = snd cs\<rparr>"

text \<open>
  A customer with one product under QTD: ARR 100 in January 2020 and 50 in February 2020,
  nothing after. Gap filling adds the month of March with ARR 0; the lifespan is
  2020-01 to 2020-02, the churn date 2020-03-01, and the trim keeps the rows before
  2020-04-01, the start of the quarter after the last active month. The customer's one
  primary key, 0, has one row in the dimension table.
\<close>

definition january_customer :: "seg_row list" where
  "january_customer =
     [trimmed_row (ts 2020 1 1) (ts 2020 3 1) (ts 2020 1 1) 100 (Val 4, Val 2020),
      trimmed_row (ts 2020 1 1) (ts 2020 3 1) (ts 2020 2 1) 50 (Val 4, Val 2020),
      trimmed_row (ts 2020 1 1) (ts 2020 3 1) (ts 2020 3 1) 0 (Val 4, Val 2020)]"

text \<open>
  A stand-in for the outcome of the month-name print in the examples. The examples reach
  the print with one value only, the int 2, for which pandas prints February; the
  stand-in says that much and nothing about what pandas does with any other value.
\<close>

definition example_month_name_ok :: "yaml \<Rightarrow> bool" where
  "example_month_name_ok v = (v = YInt 2)"

text \<open>
  An input of one customer with ARR 100 in January 2020, and a waterfall of its one primary
  key with the end-of-period ARR \<open>eop\<close> and whose categories other than \<^verbatim>\<open>EoP ARR\<close>
  sum to the residue \<open>v\<close>.
\<close>

definition one_customer_input :: "initial_row list" where
  "one_customer_input =
     [\<lparr>initial_customer_id = 0, initial_month = ts 2020 1 1, initial_arr = 100,
       is_recurring = 1\<rparr>]"

definition residue_waterfall :: "real \<Rightarrow> real \<Rightarrow> waterfall_row list" where
  "residue_waterfall eop v =
     [\<lparr>waterfall_primary_key = 0, Customer_ID = 0, Month = ts 2020 1 1,
       Value_type = ''New Customers'', Value_yearly = 100\<rparr>,
      \<lparr>waterfall_primary_key = 0, Customer_ID = 0, Month = ts 2020 1 1,
       Value_type = ''EoP_reversed'', Value_yearly = v - 100\<rparr>,
      \<lparr>waterfall_primary_key = 0, Customer_ID = 0, Month = ts 2020 1 1,
       Value_type = ''EoP ARR'', Value_yearly = eop\<rparr>]"

section \<open>Properties\<close>

subsection \<open>Vectorised steps\<close>

lemma traverse_length: "traverse f xs = Inr ys \<Longrightarrow> length ys = length xs"
  by (induction xs arbitrary: ys) (auto split: sum.splits)

lemma traverse_nth:
  "traverse f xs = Inr ys \<Longrightarrow> i < length xs \<Longrightarrow> f (xs ! i) = Inr (ys ! i)"
proof (induction xs arbitrary: ys i)
  case Nil
  then show ?case by simp
next
  case (Cons x xs)
  then show ?case
    by (cases i) (auto split: sum.splits)
qed

lemma traverse_total:
  "(\<And>x. x \<in> set xs \<Longrightarrow> \<exists>y. f x = Inr y) \<Longrightarrow> \<exists>ys. traverse f xs = Inr ys"
proof (induction xs)
  case Nil
  then show ?case by simp
next
  case (Cons x xs)
  then obtain y where "f x = Inr y" by auto
  moreover from Cons obtain ys where "traverse f xs = Inr ys" by auto
  ultimately show ?case by simp
qed

lemma traverse_rows:
  assumes "traverse f xs = Inr ys" and "i < length xs"
    and "\<And>x y. f x = Inr y \<Longrightarrow> P x y"
  shows "P (xs ! i) (ys ! i)"
  using assms traverse_nth by blast

text \<open>The unfolding rules that evaluate the model on a concrete frame.\<close>

lemmas ev = ts_def fixed_window_def calendar_policy_def customer_row_def flagged_row_def
  month_cell_ok_def policy_ok_def period_ready_def
  crb_add_churn_flags_def churn_flags_row_def crb_number_months_def
  crb_add_cross_sell_flags_def cross_sell_flags_row_def
  crb_upsell_flags_def upsell_flags_row_def upsell_downsell_def upsell_mask_def
  classify_def period_diffs_def calculate_start_of_next_period_def
  calculate_start_of_current_period_def next_quarter_step_def current_quarter_step_def
  quarter_month_def effective_fy_start_month_def to_datetime_def set_loc_def
  calculate_month_difference_def month_difference_nat_def nan_less_def nan_ge_def
  flag_dict_def map_fillna_def Let_def
  arr_row.defs churn_row.defs cross_row.defs upsell_row.defs seg_row.defs

subsection \<open>Month difference\<close>

text \<open>
  C10. \<^verbatim>\<open>calculate_month_difference\<close> is exactly
  \<open>(end.year - start.year) * 12 + (end.month - start.month)\<close>: the day of the month of
  either date has no influence, two dates of one calendar month are 0 months apart, and
  the difference is negative whenever the end month precedes the start month.
\<close>

theorem calculate_month_difference_signed_day_insensitive:
  "calculate_month_difference s e = (dt_year e - dt_year s) * 12 + (dt_month e - dt_month s)
   \<and> calculate_month_difference (s\<lparr>dt_day := a\<rparr>) (e\<lparr>dt_day := b\<rparr>)
       = calculate_month_difference s e
   \<and> (dt_year s = dt_year e \<and> dt_month s = dt_month e
        \<longrightarrow> calculate_month_difference s e = 0)
   \<and> (1 \<le> dt_month s \<and> dt_month s \<le> 12 \<and> 1 \<le> dt_month e \<and> dt_month e \<le> 12 \<and>
        (dt_year e < dt_year s \<or> dt_year e = dt_year s \<and> dt_month e < dt_month s)
        \<longrightarrow> calculate_month_difference s e < 0)"
  by (auto simp: calculate_month_difference_def)

theorem calculate_month_difference_signed_day_insensitive_witness:
  "calculate_month_difference (ts 2020 3 1) (ts 2020 3 31) = 0
   \<and> dt_year (ts 2020 3 15) = dt_year (ts 2020 1 20)
   \<and> dt_month (ts 2020 1 20) < dt_month (ts 2020 3 15)
   \<and> calculate_month_difference (ts 2020 3 15) (ts 2020 1 20) < 0
   \<and> calculate_month_difference (ts 2021 1 31) (ts 2020 12 1) < 0"
  using calculate_month_difference_signed_day_insensitive [of "ts 2020 3 1" "ts 2020 3 31"]
    calculate_month_difference_signed_day_insensitive [of "ts 2020 3 15" "ts 2020 1 20"]
    calculate_month_difference_signed_day_insensitive [of "ts 2021 1 31" "ts 2020 12 1"]
  by (simp add: ts_def)

subsection \<open>New-logo and churn flags under the fixed-N policy\<close>

lemma churn_flags_row_static:
  assumes "crb_number_months con"
  shows "\<exists>r'. churn_flags_row con r = Inr r' \<and>
     (new_customer_flag r' = 1 \<longleftrightarrow>
        0 \<le> calculate_month_difference (customer_start_date r) (month r) \<and>
        calculate_month_difference (customer_start_date r) (month r) < month_period con) \<and>
     (customer_churn_flag r' = 1 \<longleftrightarrow>
        0 \<le> calculate_month_difference (customer_churn_date r) (month r) \<and>
        calculate_month_difference (customer_churn_date r) (month r) < month_period con) \<and>
     new_customer_flag r' \<in> {0, 1} \<and> customer_churn_flag r' \<in> {0, 1}"
  using assms
  by (auto simp: churn_flags_row_def Let_def arr_row.defs churn_row.defs
      map_fillna_def flag_dict_def)

text \<open>
  C3, as the claim states it, fails: the lookup table of the fixed-N policy is built from
  \<^verbatim>\<open>range(0, month_period)\<close>, so it holds the key 0, and the row dated at
  \<^verbatim>\<open>customer_start_date\<close> itself (0 elapsed months) gets \<^verbatim>\<open>new_customer_flag = 1\<close>.
\<close>

theorem crb_add_churn_flags_start_row_counterexample:
  "map_sum id (map new_customer_flag)
     (crb_add_churn_flags (fixed_window 3)
        [customer_row (ts 2020 1 1) (ts 2021 1 1) (ts 2020 1 1) 100 0]) = Inr [1]
   \<and> \<not> 0 < calculate_month_difference (ts 2020 1 1) (ts 2020 1 1)"
  by code_simp

text \<open>
  C3, amended. Under the fixed-N policy \<^verbatim>\<open>crb_add_churn_flags\<close> always returns, and on
  every row \<^verbatim>\<open>new_customer_flag = 1\<close> if and only if
  \<open>0 \<le> months_since(customer_start_date) < N\<close>, and \<^verbatim>\<open>customer_churn_flag = 1\<close> if and
  only if \<open>0 \<le> months_since(customer_churn_date) < N\<close>; both flags are 0 otherwise.
\<close>

theorem crb_add_churn_flags_fixed_window:
  assumes "crb_number_months con"
  shows "\<exists>df'. crb_add_churn_flags con df = Inr df' \<and> length df' = length df \<and>
     (\<forall>i<length df.
        (new_customer_flag (df' ! i) = 1 \<longleftrightarrow>
           0 \<le> calculate_month_difference (customer_start_date (df ! i)) (month (df ! i)) \<and>
           calculate_month_difference (customer_start_date (df ! i)) (month (df ! i))
             < month_period con) \<and>
        (customer_churn_flag (df' ! i) = 1 \<longleftrightarrow>
           0 \<le> calculate_month_difference (customer_churn_date (df ! i)) (month (df ! i)) \<and>
           calculate_month_difference (customer_churn_date (df ! i)) (month (df ! i))
             < month_period con) \<and>
        new_customer_flag (df' ! i) \<in> {0, 1} \<and> customer_churn_flag (df' ! i) \<in> {0, 1})"
proof -
  have "\<exists>ys. traverse (churn_flags_row con) df = Inr ys"
    by (rule traverse_total) (use churn_flags_row_static[OF assms] in blast)
  then obtain df' where df': "crb_add_churn_flags con df = Inr df'"
    by (auto simp: crb_add_churn_flags_def)
  have len: "length df' = length df"
    using df' by (simp add: crb_add_churn_flags_def traverse_length)
  have "\<And>i. i < length df \<Longrightarrow> churn_flags_row con (df ! i) = Inr (df' ! i)"
    using df' by (simp add: crb_add_churn_flags_def traverse_nth)
  then have "\<And>i. i < length df \<Longrightarrow>
        (new_customer_flag (df' ! i) = 1 \<longleftrightarrow>
           0 \<le> calculate_month_difference (customer_start_date (df ! i)) (month (df ! i)) \<and>
           calculate_month_difference (customer_start_date (df ! i)) (month (df ! i))
             < month_period con) \<and>
        (customer_churn_flag (df' ! i) = 1 \<longleftrightarrow>
           0 \<le> calculate_month_difference (customer_churn_date (df ! i)) (month (df ! i)) \<and>
           calculate_month_difference (customer_churn_date (df ! i)) (month (df ! i))
             < month_period con) \<and>
        new_customer_flag (df' ! i) \<in> {0, 1} \<and> customer_churn_flag (df' ! i) \<in> {0, 1}"
    using churn_flags_row_static[OF assms, of "df ! i" for i] by (metis sum.inject(2))
  then show ?thesis
    using df' len by blast
qed

text \<open>
  The example of the specification, run through the theorem: a customer that starts on
  2020-01-01, \<open>N = 3\<close>. The rows of 2020-01 (the start month), 2020-02 and 2020-03 are
  flagged, the row of 2020-04 is not.
\<close>

theorem crb_add_churn_flags_fixed_window_witness:
  "crb_number_months (fixed_window 3)
   \<and> map_sum id (map new_customer_flag)
       (crb_add_churn_flags (fixed_window 3)
          [customer_row (ts 2020 1 1) (ts 2021 1 1) (ts 2020 1 1) 100 0,
           customer_row (ts 2020 1 1) (ts 2021 1 1) (ts 2020 2 1) 100 0,
           customer_row (ts 2020 1 1) (ts 2021 1 1) (ts 2020 3 1) 100 0,
           customer_row (ts 2020 1 1) (ts 2021 1 1) (ts 2020 4 1) 100 100]) = Inr [1, 1, 1, 0]"
proof -
  have h: "crb_number_months (fixed_window 3)"
    by (simp add: ev)
  show ?thesis
    using h crb_add_churn_flags_fixed_window [OF h, of
        "[customer_row (ts 2020 1 1) (ts 2021 1 1) (ts 2020 1 1) 100 0,
          customer_row (ts 2020 1 1) (ts 2021 1 1) (ts 2020 2 1) 100 0,
          customer_row (ts 2020 1 1) (ts 2021 1 1) (ts 2020 3 1) 100 0,
          customer_row (ts 2020 1 1) (ts 2021 1 1) (ts 2020 4 1) 100 100]"]
    by (simp add: ev)
qed

subsection \<open>The period calculator returns on well-formed input\<close>

lemma quarter_month_range: "1 \<le> quarter_month fy k \<and> quarter_month fy k \<le> 12"
proof -
  have "0 \<le> (fy + 3 * k) mod 12" "(fy + 3 * k) mod 12 < 12" by simp_all
  then show ?thesis unfolding quarter_month_def Let_def by auto
qed

lemma set_loc_present [simp]: "set_loc b v c \<noteq> NoColumn"
  by (simp add: set_loc_def split: cell.splits)

lemma set_loc_month_ok:
  "month_cell_ok c \<Longrightarrow> 1 \<le> v \<and> v \<le> 12 \<Longrightarrow> month_cell_ok (set_loc b v c)"
  by (simp add: set_loc_def month_cell_ok_def split: cell.splits)

lemma to_datetime_total:
  "ycell \<noteq> NoColumn \<Longrightarrow> mcell \<noteq> NoColumn \<Longrightarrow> month_cell_ok mcell
     \<Longrightarrow> \<exists>t. to_datetime ycell mcell = Inr t"
  by (auto simp: to_datetime_def month_cell_ok_def split: cell.splits)

lemma next_quarter_step_ok:
  "month_cell_ok (fst cs) \<Longrightarrow> month_cell_ok (fst (next_quarter_step fy m y cs x))"
  unfolding next_quarter_step_def Let_def
  by (simp add: set_loc_month_ok quarter_month_range)

lemma next_quarter_step_present:
  "fst (next_quarter_step fy m y cs x) \<noteq> NoColumn \<and> snd (next_quarter_step fy m y cs x) \<noteq> NoColumn"
  unfolding next_quarter_step_def Let_def by simp

lemma next_quarter_loop:
  assumes "month_cell_ok (fst cs)"
  shows "month_cell_ok (fst (foldl (next_quarter_step fy m y) cs [0, 1, 2, 3]))
     \<and> fst (foldl (next_quarter_step fy m y) cs [0, 1, 2, 3]) \<noteq> NoColumn
     \<and> snd (foldl (next_quarter_step fy m y) cs [0, 1, 2, 3]) \<noteq> NoColumn"
  using assms by (simp add: next_quarter_step_ok next_quarter_step_present)

lemma calculate_start_of_next_period_total:
  assumes "policy_ok con" and "month_cell_ok (fst cs)"
  shows "\<exists>t cs'. calculate_start_of_next_period con d cs = Inr (t, cs') \<and> month_cell_ok (fst cs')"
proof -
  consider (year) "crb_type con \<in> set [''YTD'', ''FYTD'']"
    | (quarter) "crb_type con \<notin> set [''YTD'', ''FYTD'']" "crb_type con \<in> set [''QTD'', ''FQTD'']"
    | (other) "crb_type con \<notin> set [''YTD'', ''FYTD'']" "crb_type con \<notin> set [''QTD'', ''FQTD'']"
    by blast
  then show ?thesis
  proof cases
    case year
    then have fy: "1 \<le> effective_fy_start_month con \<and> effective_fy_start_month con \<le> 12"
      using assms(1) by (auto simp: policy_ok_def effective_fy_start_month_def)
    then have ok: "month_cell_ok (Val (effective_fy_start_month con))"
      by (simp add: month_cell_ok_def)
    obtain t where "to_datetime
        (set_loc (dt_month d \<ge> effective_fy_start_month con) (dt_year d + 1)
           (set_loc (dt_month d < effective_fy_start_month con) (dt_year d) (snd cs)))
        (Val (effective_fy_start_month con)) = Inr t"
      using to_datetime_total[OF _ _ ok] by (metis cell.distinct(3) set_loc_present)
    then show ?thesis
      using year ok by (simp add: calculate_start_of_next_period_def Let_def)
  next
    case quarter
    let ?cs = "foldl (next_quarter_step (effective_fy_start_month con) (dt_month d) (dt_year d)) cs [0, 1, 2, 3]"
    have l: "month_cell_ok (fst ?cs)" "fst ?cs \<noteq> NoColumn" "snd ?cs \<noteq> NoColumn"
      using next_quarter_loop[OF assms(2)] by blast+
    then obtain t where "to_datetime (snd ?cs) (fst ?cs) = Inr t"
      using to_datetime_total by blast
    then show ?thesis
      using quarter l(1) by (simp add: calculate_start_of_next_period_def Let_def)
  next
    case other
    then show ?thesis
      using assms(2) by (simp add: calculate_start_of_next_period_def Let_def)
  qed
qed

lemma period_diffs_total:
  assumes "policy_ok con" and "month_cell_ok (fst cs)"
  shows "\<exists>td npd cs'. period_diffs con anchor mth cs = Inr (td, npd, cs') \<and> month_cell_ok (fst cs')"
  using calculate_start_of_next_period_total[OF assms, of anchor]
  by (auto simp: period_diffs_def)

subsection \<open>Vectorised steps with an invariant\<close>

lemma traverse_set:
  assumes "traverse f xs = Inr ys" and "y \<in> set ys"
    and "\<And>x y. x \<in> set xs \<Longrightarrow> f x = Inr y \<Longrightarrow> Q y"
  shows "Q y"
proof -
  obtain i where i: "i < length ys" "ys ! i = y"
    using assms(2) by (auto simp: in_set_conv_nth)
  then have "i < length xs" using assms(1) by (simp add: traverse_length)
  then have "f (xs ! i) = Inr (ys ! i)" "xs ! i \<in> set xs"
    using assms(1) by (simp_all add: traverse_nth)
  then show ?thesis using assms(3) i(2) by blast
qed

lemma traverse_total_inv:
  assumes "\<And>x. x \<in> set xs \<Longrightarrow> \<exists>y. f x = Inr y \<and> Q y"
  shows "\<exists>ys. traverse f xs = Inr ys \<and> (\<forall>y\<in>set ys. Q y)"
proof -
  have "\<exists>ys. traverse f xs = Inr ys"
    by (rule traverse_total) (use assms in blast)
  then obtain ys where ys: "traverse f xs = Inr ys" by blast
  have "Q y" if "y \<in> set ys" for y
    using ys that by (rule traverse_set) (use assms in force)
  then show ?thesis using ys by blast
qed

subsection \<open>The three classifier steps, row by row\<close>

lemma churn_flags_row_binary:
  assumes "churn_flags_row con r = Inr r'"
  shows "(new_customer_flag r' = 0 \<or> new_customer_flag r' = 1) \<and>
         (customer_churn_flag r' = 0 \<or> customer_churn_flag r' = 1)"
  using assms
  by (auto simp: churn_flags_row_def Let_def map_fillna_def arr_row.defs churn_row.defs
      split: if_splits sum.splits prod.splits)

lemma churn_flags_row_total:
  assumes "period_ready con (month_next_period r)"
  shows "\<exists>r'. churn_flags_row con r = Inr r' \<and> period_ready con (month_next_period r')"
proof (cases "crb_number_months con")
  case True
  then show ?thesis
    by (simp add: churn_flags_row_def Let_def period_ready_def)
next
  case False
  then have ok: "policy_ok con" "month_cell_ok (fst (month_next_period r, year_next_period r))"
    using assms by (auto simp: period_ready_def)
  obtain td1 npd1 cs1 where 1: "period_diffs con (customer_start_date r) (month r)
      (month_next_period r, year_next_period r) = Inr (td1, npd1, cs1)" "month_cell_ok (fst cs1)"
    using period_diffs_total[OF ok] by blast
  obtain td2 npd2 cs2 where 2: "period_diffs con (customer_churn_date r) (month r) cs1
      = Inr (td2, npd2, cs2)" "month_cell_ok (fst cs2)"
    using period_diffs_total[OF ok(1) 1(2)] by blast
  show ?thesis using False 1 2 ok(1)
    by (simp add: churn_flags_row_def period_ready_def arr_row.defs churn_row.defs)
qed

lemma cross_sell_flags_row_masked:
  assumes "cross_sell_flags_row con r = Inr r'"
  shows "new_customer_flag r' = new_customer_flag r \<and>
         customer_churn_flag r' = customer_churn_flag r \<and>
         arr_delta r' = arr_delta r \<and>
         (cross_sell_flag r' = 0 \<or> cross_sell_flag r' = 1) \<and>
         (product_churn_flag r' = 0 \<or> product_churn_flag r' = 1) \<and>
         (if new_customer_flag r = 0 \<and> customer_churn_flag r = 0 then True
          else cross_sell_flag r' = 0 \<and> product_churn_flag r' = 0)"
  using assms
  by (auto simp: cross_sell_flags_row_def Let_def map_fillna_def churn_row.defs cross_row.defs
      split: if_splits sum.splits prod.splits)

lemma cross_sell_flags_row_total:
  assumes "period_ready con (month_next_period r)"
  shows "\<exists>r'. cross_sell_flags_row con r = Inr r' \<and> period_ready con (month_next_period r')"
proof (cases "crb_number_months con")
  case True
  then show ?thesis
    by (simp add: cross_sell_flags_row_def Let_def period_ready_def churn_row.defs cross_row.defs)
next
  case False
  then have ok: "policy_ok con" "month_cell_ok (fst (month_next_period r, year_next_period r))"
    using assms by (auto simp: period_ready_def)
  obtain td1 npd1 cs1 where 1: "period_diffs con (product_start_date r) (month r)
      (month_next_period r, year_next_period r) = Inr (td1, npd1, cs1)" "month_cell_ok (fst cs1)"
    using period_diffs_total[OF ok] by blast
  obtain td2 npd2 cs2 where 2: "period_diffs con (product_churn_date r) (month r) cs1
      = Inr (td2, npd2, cs2)" "month_cell_ok (fst cs2)"
    using period_diffs_total[OF ok(1) 1(2)] by blast
  show ?thesis using False 1 2 ok(1)
    by (simp add: cross_sell_flags_row_def period_ready_def churn_row.defs cross_row.defs)
qed

lemma upsell_downsell_fields:
  "upsell_flag (upsell_downsell r ec ep) = (if arr_delta r > 0 \<and> upsell_mask r ec ep then 1 else 0)"
  "downsell_flag (upsell_downsell r ec ep) = (if arr_delta r < 0 \<and> upsell_mask r ec ep then 1 else 0)"
  "existing_customer_flag (upsell_downsell r ec ep) = ec"
  "existing_product_flag (upsell_downsell r ec ep) = ep"
  "new_customer_flag (upsell_downsell r ec ep) = new_customer_flag r"
  "customer_churn_flag (upsell_downsell r ec ep) = customer_churn_flag r"
  "cross_sell_flag (upsell_downsell r ec ep) = cross_sell_flag r"
  "product_churn_flag (upsell_downsell r ec ep) = product_churn_flag r"
  "arr_delta (upsell_downsell r ec ep) = arr_delta r"
  by (simp_all add: upsell_downsell_def Let_def cross_row.defs upsell_row.defs)

lemma upsell_downsell_ok:
  assumes "arr_delta r0 = arr_delta r" "new_customer_flag r0 = new_customer_flag r"
    "customer_churn_flag r0 = customer_churn_flag r" "cross_sell_flag r0 = cross_sell_flag r"
    "product_churn_flag r0 = product_churn_flag r"
  shows "upsell_row_ok r (upsell_downsell r0 ec ep)"
  using assms by (auto simp: upsell_row_ok_def upsell_downsell_fields upsell_mask_def)

lemma upsell_flags_row_ok:
  assumes "upsell_flags_row con r = Inr r'"
  shows "upsell_row_ok r r'"
  using assms
  by (auto simp: upsell_flags_row_def Let_def intro!: upsell_downsell_ok
      split: if_splits sum.splits prod.splits)

lemma upsell_flags_row_keeps:
  assumes "upsell_flags_row con r = Inr r'"
  shows "new_customer_flag r' = new_customer_flag r \<and>
         customer_churn_flag r' = customer_churn_flag r \<and>
         cross_sell_flag r' = cross_sell_flag r \<and>
         product_churn_flag r' = product_churn_flag r"
  using assms
  by (auto simp: upsell_flags_row_def Let_def upsell_downsell_fields
      split: if_splits sum.splits prod.splits)

lemma upsell_flags_row_total:
  assumes "crb_number_months con \<or> policy_ok con \<and> month_cell_ok (month_next_period r)"
  shows "\<exists>r'. upsell_flags_row con r = Inr r'"
proof (cases "crb_number_months con")
  case True
  then show ?thesis by (simp add: upsell_flags_row_def Let_def)
next
  case False
  then have ok: "policy_ok con" "month_cell_ok (fst (month_next_period r, year_next_period r))"
    using assms by auto
  obtain td1 npd1 cs1 where 1: "period_diffs con (customer_start_date r) (month r)
      (month_next_period r, year_next_period r) = Inr (td1, npd1, cs1)" "month_cell_ok (fst cs1)"
    using period_diffs_total[OF ok] by blast
  obtain td2 npd2 cs2 where 2: "period_diffs con (product_start_date r) (month r) cs1
      = Inr (td2, npd2, cs2)"
    using period_diffs_total[OF ok(1) 1(2)] by blast
  show ?thesis using False 1 2 by (simp add: upsell_flags_row_def)
qed

lemma crb_upsell_flags_rows:
  "crb_upsell_flags con df = Inr df' \<Longrightarrow> traverse (upsell_flags_row con) df = Inr df'"
  by (simp add: crb_upsell_flags_def split: if_splits)

lemma classify_total:
  assumes "\<And>r. r \<in> set df \<Longrightarrow> period_ready con (month_next_period r)" and "df \<noteq> []"
  shows "\<exists>df'. classify con df = Inr df'"
proof -
  obtain df1 where 1: "crb_add_churn_flags con df = Inr df1"
      "\<forall>r\<in>set df1. period_ready con (month_next_period r)"
    unfolding crb_add_churn_flags_def
    using traverse_total_inv[of df "churn_flags_row con" "\<lambda>r. period_ready con (month_next_period r)"]
      churn_flags_row_total assms by blast
  obtain df2 where 2: "crb_add_cross_sell_flags con df1 = Inr df2"
      "\<forall>r\<in>set df2. period_ready con (month_next_period r)"
    unfolding crb_add_cross_sell_flags_def
    using traverse_total_inv[of df1 "cross_sell_flags_row con" "\<lambda>r. period_ready con (month_next_period r)"]
      cross_sell_flags_row_total 1(2) by blast
  have "\<And>r. r \<in> set df2 \<Longrightarrow> \<exists>r'. upsell_flags_row con r = Inr r'"
    using 2(2) upsell_flags_row_total by (auto simp: period_ready_def)
  then have "\<exists>df'. traverse (upsell_flags_row con) df2 = Inr df'"
    by (rule traverse_total)
  moreover have "length df2 = length df"
    using 1(1) 2(1)
    by (simp add: crb_add_churn_flags_def crb_add_cross_sell_flags_def traverse_length)
  then have "df2 \<noteq> []" using assms(2) by auto
  ultimately have "\<exists>df'. crb_upsell_flags con df2 = Inr df'"
    by (simp add: crb_upsell_flags_def)
  then show ?thesis using 1(1) 2(1) by (simp add: classify_def)
qed

lemma classify_rows:
  assumes "classify con df = Inr df'" and "i < length df"
  shows "length df' = length df \<and>
     (\<exists>r1 r2. churn_flags_row con (df ! i) = Inr r1 \<and>
        cross_sell_flags_row con r1 = Inr r2 \<and>
        upsell_flags_row con r2 = Inr (df' ! i))"
proof -
  obtain df1 df2 where s: "traverse (churn_flags_row con) df = Inr df1"
      "traverse (cross_sell_flags_row con) df1 = Inr df2"
      "traverse (upsell_flags_row con) df2 = Inr df'"
    using assms(1)
    by (auto simp: classify_def crb_add_churn_flags_def crb_add_cross_sell_flags_def
        crb_upsell_flags_def split: sum.splits if_splits)
  have len: "length df1 = length df" "length df2 = length df" "length df' = length df"
    using s by (simp_all add: traverse_length)
  have "churn_flags_row con (df ! i) = Inr (df1 ! i)"
       "cross_sell_flags_row con (df1 ! i) = Inr (df2 ! i)"
       "upsell_flags_row con (df2 ! i) = Inr (df' ! i)"
    using s len assms(2) by (simp_all add: traverse_nth)
  then show ?thesis using len by blast
qed

lemma classify_row_grouped:
  assumes "churn_flags_row con r = Inr r1" "cross_sell_flags_row con r1 = Inr r2"
    "upsell_flags_row con r2 = Inr r3"
  shows "buckets_grouped r3"
proof -
  note a = churn_flags_row_binary[OF assms(1)]
  note b = cross_sell_flags_row_masked[OF assms(2)]
  note c = upsell_flags_row_keeps[OF assms(3)]
  note d = upsell_flags_row_ok[OF assms(3), unfolded upsell_row_ok_def]
  show ?thesis
    unfolding buckets_grouped_def
    using a b c d by (auto split: if_splits)
qed

subsection \<open>Upsell and downsell\<close>

text \<open>
  C6. On a frame with rows, \<^verbatim>\<open>crb_upsell_flags\<close> returns under the fixed-N policy and,
  under a calendar policy, whenever the period calculator can assemble its dates. Whenever it
  returns, on every row \<^verbatim>\<open>upsell_flag = 1\<close> if and only if \<^verbatim>\<open>arr_delta > 0\<close>, the
  four flags \<^verbatim>\<open>new_customer_flag\<close>, \<^verbatim>\<open>customer_churn_flag\<close>, \<^verbatim>\<open>cross_sell_flag\<close>,
  \<^verbatim>\<open>product_churn_flag\<close> are 0 and both \<^verbatim>\<open>existing_customer_flag\<close> and
  \<^verbatim>\<open>existing_product_flag\<close> are 1; \<^verbatim>\<open>downsell_flag = 1\<close> if and only if
  \<^verbatim>\<open>arr_delta < 0\<close> under the same mask; both flags are 0 otherwise, and never both 1.
\<close>

theorem crb_upsell_flags_sets_upsell_downsell:
  "(df \<noteq> [] \<and> (crb_number_months con \<or>
      policy_ok con \<and> list_all (\<lambda>r. month_cell_ok (month_next_period r)) df)
     \<longrightarrow> (\<exists>df'. crb_upsell_flags con df = Inr df')) \<and>
   (\<forall>df'. crb_upsell_flags con df = Inr df' \<longrightarrow>
      length df' = length df \<and>
      (\<forall>i<length df.
         (upsell_flag (df' ! i) = 1 \<longleftrightarrow>
            arr_delta (df ! i) > 0 \<and>
            new_customer_flag (df ! i) = 0 \<and> customer_churn_flag (df ! i) = 0 \<and>
            cross_sell_flag (df ! i) = 0 \<and> product_churn_flag (df ! i) = 0 \<and>
            existing_customer_flag (df' ! i) = 1 \<and> existing_product_flag (df' ! i) = 1) \<and>
         (downsell_flag (df' ! i) = 1 \<longleftrightarrow>
            arr_delta (df ! i) < 0 \<and>
            new_customer_flag (df ! i) = 0 \<and> customer_churn_flag (df ! i) = 0 \<and>
            cross_sell_flag (df ! i) = 0 \<and> product_churn_flag (df ! i) = 0 \<and>
            existing_customer_flag (df' ! i) = 1 \<and> existing_product_flag (df' ! i) = 1) \<and>
         (upsell_flag (df' ! i) = 0 \<or> upsell_flag (df' ! i) = 1) \<and>
         (downsell_flag (df' ! i) = 0 \<or> downsell_flag (df' ! i) = 1) \<and>
         \<not> (upsell_flag (df' ! i) = 1 \<and> downsell_flag (df' ! i) = 1)))"
proof (rule conjI)
  show "df \<noteq> [] \<and> (crb_number_months con \<or>
      policy_ok con \<and> list_all (\<lambda>r. month_cell_ok (month_next_period r)) df)
      \<longrightarrow> (\<exists>df'. crb_upsell_flags con df = Inr df')"
  proof (rule impI)
    assume a: "df \<noteq> [] \<and> (crb_number_months con \<or>
        policy_ok con \<and> list_all (\<lambda>r. month_cell_ok (month_next_period r)) df)"
    then have "\<And>r. r \<in> set df \<Longrightarrow> \<exists>r'. upsell_flags_row con r = Inr r'"
      by (intro upsell_flags_row_total) (auto simp: list_all_iff)
    then have "\<exists>df'. traverse (upsell_flags_row con) df = Inr df'"
      by (rule traverse_total)
    then show "\<exists>df'. crb_upsell_flags con df = Inr df'"
      using a by (simp add: crb_upsell_flags_def)
  qed
next
  show "\<forall>df'. crb_upsell_flags con df = Inr df' \<longrightarrow>
      length df' = length df \<and>
      (\<forall>i<length df.
         (upsell_flag (df' ! i) = 1 \<longleftrightarrow>
            arr_delta (df ! i) > 0 \<and>
            new_customer_flag (df ! i) = 0 \<and> customer_churn_flag (df ! i) = 0 \<and>
            cross_sell_flag (df ! i) = 0 \<and> product_churn_flag (df ! i) = 0 \<and>
            existing_customer_flag (df' ! i) = 1 \<and> existing_product_flag (df' ! i) = 1) \<and>
         (downsell_flag (df' ! i) = 1 \<longleftrightarrow>
            arr_delta (df ! i) < 0 \<and>
            new_customer_flag (df ! i) = 0 \<and> customer_churn_flag (df ! i) = 0 \<and>
            cross_sell_flag (df ! i) = 0 \<and> product_churn_flag (df ! i) = 0 \<and>
            existing_customer_flag (df' ! i) = 1 \<and> existing_product_flag (df' ! i) = 1) \<and>
         (upsell_flag (df' ! i) = 0 \<or> upsell_flag (df' ! i) = 1) \<and>
         (downsell_flag (df' ! i) = 0 \<or> downsell_flag (df' ! i) = 1) \<and>
         \<not> (upsell_flag (df' ! i) = 1 \<and> downsell_flag (df' ! i) = 1))"
  proof (rule allI, rule impI, rule conjI)
    fix df' assume a: "crb_upsell_flags con df = Inr df'"
    then show "length df' = length df"
      by (simp add: crb_upsell_flags_def traverse_length split: if_splits)
    show "\<forall>i<length df.
         (upsell_flag (df' ! i) = 1 \<longleftrightarrow>
            arr_delta (df ! i) > 0 \<and>
            new_customer_flag (df ! i) = 0 \<and> customer_churn_flag (df ! i) = 0 \<and>
            cross_sell_flag (df ! i) = 0 \<and> product_churn_flag (df ! i) = 0 \<and>
            existing_customer_flag (df' ! i) = 1 \<and> existing_product_flag (df' ! i) = 1) \<and>
         (downsell_flag (df' ! i) = 1 \<longleftrightarrow>
            arr_delta (df ! i) < 0 \<and>
            new_customer_flag (df ! i) = 0 \<and> customer_churn_flag (df ! i) = 0 \<and>
            cross_sell_flag (df ! i) = 0 \<and> product_churn_flag (df ! i) = 0 \<and>
            existing_customer_flag (df' ! i) = 1 \<and> existing_product_flag (df' ! i) = 1) \<and>
         (upsell_flag (df' ! i) = 0 \<or> upsell_flag (df' ! i) = 1) \<and>
         (downsell_flag (df' ! i) = 0 \<or> downsell_flag (df' ! i) = 1) \<and>
         \<not> (upsell_flag (df' ! i) = 1 \<and> downsell_flag (df' ! i) = 1)"
    proof (rule allI, rule impI)
      fix i assume i: "i < length df"
      have "upsell_row_ok (df ! i) (df' ! i)"
        using crb_upsell_flags_rows[OF a] i upsell_flags_row_ok
        by (rule traverse_rows)
      then show "(upsell_flag (df' ! i) = 1 \<longleftrightarrow>
            arr_delta (df ! i) > 0 \<and>
            new_customer_flag (df ! i) = 0 \<and> customer_churn_flag (df ! i) = 0 \<and>
            cross_sell_flag (df ! i) = 0 \<and> product_churn_flag (df ! i) = 0 \<and>
            existing_customer_flag (df' ! i) = 1 \<and> existing_product_flag (df' ! i) = 1) \<and>
         (downsell_flag (df' ! i) = 1 \<longleftrightarrow>
            arr_delta (df ! i) < 0 \<and>
            new_customer_flag (df ! i) = 0 \<and> customer_churn_flag (df ! i) = 0 \<and>
            cross_sell_flag (df ! i) = 0 \<and> product_churn_flag (df ! i) = 0 \<and>
            existing_customer_flag (df' ! i) = 1 \<and> existing_product_flag (df' ! i) = 1) \<and>
         (upsell_flag (df' ! i) = 0 \<or> upsell_flag (df' ! i) = 1) \<and>
         (downsell_flag (df' ! i) = 0 \<or> downsell_flag (df' ! i) = 1) \<and>
         \<not> (upsell_flag (df' ! i) = 1 \<and> downsell_flag (df' ! i) = 1)"
        unfolding upsell_row_ok_def .
    qed
  qed
qed

text \<open>
  The theorem at work under the YTD policy: a customer of March 2019 whose ARR went from
  100 at the start of 2020 to 150 in June 2020 is an upsell; a second row of the same
  customer with the ARR down to 80 is a downsell.
\<close>

theorem crb_upsell_flags_sets_upsell_downsell_witness:
  "policy_ok (calendar_policy ''YTD'' 1)
   \<and> list_all (\<lambda>r. month_cell_ok (month_next_period r))
       [flagged_row (customer_row (ts 2019 3 1) (ts 2021 1 1) (ts 2020 6 1) 150 100) 0 0 0 0,
        flagged_row (customer_row (ts 2019 3 1) (ts 2021 1 1) (ts 2020 7 1) 80 100) 0 0 0 0]
   \<and> map_sum id (map upsell_flag)
       (crb_upsell_flags (calendar_policy ''YTD'' 1)
          [flagged_row (customer_row (ts 2019 3 1) (ts 2021 1 1) (ts 2020 6 1) 150 100) 0 0 0 0,
           flagged_row (customer_row (ts 2019 3 1) (ts 2021 1 1) (ts 2020 7 1) 80 100) 0 0 0 0])
       = Inr [1, 0]
   \<and> map_sum id (map downsell_flag)
       (crb_upsell_flags (calendar_policy ''YTD'' 1)
          [flagged_row (customer_row (ts 2019 3 1) (ts 2021 1 1) (ts 2020 6 1) 150 100) 0 0 0 0,
           flagged_row (customer_row (ts 2019 3 1) (ts 2021 1 1) (ts 2020 7 1) 80 100) 0 0 0 0])
       = Inr [0, 1]"
  using crb_upsell_flags_sets_upsell_downsell [of
      "[flagged_row (customer_row (ts 2019 3 1) (ts 2021 1 1) (ts 2020 6 1) 150 100) 0 0 0 0,
        flagged_row (customer_row (ts 2019 3 1) (ts 2021 1 1) (ts 2020 7 1) 80 100) 0 0 0 0]"
      "calendar_policy ''YTD'' 1"]
  by (simp add: ev)

subsection \<open>Mutual exclusion of the buckets\<close>

text \<open>
  C1, as the claim states it, fails under both policies: nothing masks
  \<^verbatim>\<open>customer_churn_flag\<close> by \<^verbatim>\<open>new_customer_flag\<close>. A customer that lived from January
  to March 2020 has, on its row of April 2020, both flags at 1: under the fixed policy
  with \<open>N = 12\<close> (3 and 0 elapsed months, both below 12) and under YTD for a customer that
  lived in January and February (3 months since the start, 1 month since the churn date,
  both inside the year).
\<close>

theorem classify_new_and_churn_counterexample:
  "map_sum id (map new_customer_flag)
     (classify (fixed_window 12)
        [customer_row (ts 2020 1 1) (ts 2020 4 1) (ts 2020 4 1) 0 0]) = Inr [1]
   \<and> map_sum id (map customer_churn_flag)
     (classify (fixed_window 12)
        [customer_row (ts 2020 1 1) (ts 2020 4 1) (ts 2020 4 1) 0 0]) = Inr [1]
   \<and> map_sum id (map new_customer_flag)
     (classify (calendar_policy ''YTD'' 1)
        [customer_row (ts 2020 1 1) (ts 2020 3 1) (ts 2020 4 1) 0 100]) = Inr [1]
   \<and> map_sum id (map customer_churn_flag)
     (classify (calendar_policy ''YTD'' 1)
        [customer_row (ts 2020 1 1) (ts 2020 3 1) (ts 2020 4 1) 0 100]) = Inr [1]"
  by code_simp

text \<open>
  The same happens inside the second pair: a product that lived three months of an older
  customer has \<^verbatim>\<open>cross_sell_flag\<close> and \<^verbatim>\<open>product_churn_flag\<close> both at 1.
\<close>

lemma classify_cross_sell_and_product_churn:
  "map_sum id (map cross_sell_flag)
     (classify (fixed_window 12)
        [(customer_row (ts 2018 1 1) (ts 2021 1 1) (ts 2020 4 1) 0 0)
           \<lparr>product_start_date := ts 2020 1 1, product_churn_date := ts 2020 4 1\<rparr>]) = Inr [1]
   \<and> map_sum id (map product_churn_flag)
     (classify (fixed_window 12)
        [(customer_row (ts 2018 1 1) (ts 2021 1 1) (ts 2020 4 1) 0 0)
           \<lparr>product_start_date := ts 2020 1 1, product_churn_date := ts 2020 4 1\<rparr>]) = Inr [1]"
  by code_simp

text \<open>
  C1, amended. The three classifier steps, run in order under either policy, return on
  every frame with rows the period calculator can assemble dates for, and whenever they return, on
  every row: if \<^verbatim>\<open>new_customer_flag\<close> or \<^verbatim>\<open>customer_churn_flag\<close> is 1 then
  \<^verbatim>\<open>cross_sell_flag\<close>, \<^verbatim>\<open>product_churn_flag\<close>, \<^verbatim>\<open>upsell_flag\<close> and \<^verbatim>\<open>downsell_flag\<close>
  are 0; if \<^verbatim>\<open>cross_sell_flag\<close> or \<^verbatim>\<open>product_churn_flag\<close> is 1 then \<^verbatim>\<open>upsell_flag\<close>
  and \<^verbatim>\<open>downsell_flag\<close> are 0; and \<^verbatim>\<open>upsell_flag\<close> and \<^verbatim>\<open>downsell_flag\<close> are never
  both 1. So at most one of the three pairs has a flag at 1.
\<close>

theorem classify_bucket_groups_exclusive:
  "(df \<noteq> [] \<and> (\<forall>r\<in>set df. period_ready con (month_next_period r))
      \<longrightarrow> (\<exists>df'. classify con df = Inr df')) \<and>
   (\<forall>df'. classify con df = Inr df' \<longrightarrow>
      length df' = length df \<and>
      (\<forall>r\<in>set df'.
         (new_customer_flag r = 1 \<or> customer_churn_flag r = 1 \<longrightarrow>
            cross_sell_flag r = 0 \<and> product_churn_flag r = 0 \<and>
            upsell_flag r = 0 \<and> downsell_flag r = 0) \<and>
         (cross_sell_flag r = 1 \<or> product_churn_flag r = 1 \<longrightarrow>
            upsell_flag r = 0 \<and> downsell_flag r = 0) \<and>
         \<not> (upsell_flag r = 1 \<and> downsell_flag r = 1)))"
proof (rule conjI)
  show "df \<noteq> [] \<and> (\<forall>r\<in>set df. period_ready con (month_next_period r))
      \<longrightarrow> (\<exists>df'. classify con df = Inr df')"
    using classify_total by blast
next
  show "\<forall>df'. classify con df = Inr df' \<longrightarrow>
      length df' = length df \<and>
      (\<forall>r\<in>set df'.
         (new_customer_flag r = 1 \<or> customer_churn_flag r = 1 \<longrightarrow>
            cross_sell_flag r = 0 \<and> product_churn_flag r = 0 \<and>
            upsell_flag r = 0 \<and> downsell_flag r = 0) \<and>
         (cross_sell_flag r = 1 \<or> product_churn_flag r = 1 \<longrightarrow>
            upsell_flag r = 0 \<and> downsell_flag r = 0) \<and>
         \<not> (upsell_flag r = 1 \<and> downsell_flag r = 1))"
  proof (rule allI, rule impI, rule conjI)
    fix df' assume a: "classify con df = Inr df'"
    show len: "length df' = length df"
    proof (cases df)
      case Nil
      then show ?thesis using a
        by (simp add: classify_def crb_add_churn_flags_def crb_add_cross_sell_flags_def
          crb_upsell_flags_def)
    next
      case (Cons x xs)
      then have "0 < length df" by simp
      then show ?thesis using classify_rows[OF a] by blast
    qed
    show "\<forall>r\<in>set df'.
         (new_customer_flag r = 1 \<or> customer_churn_flag r = 1 \<longrightarrow>
            cross_sell_flag r = 0 \<and> product_churn_flag r = 0 \<and>
            upsell_flag r = 0 \<and> downsell_flag r = 0) \<and>
         (cross_sell_flag r = 1 \<or> product_churn_flag r = 1 \<longrightarrow>
            upsell_flag r = 0 \<and> downsell_flag r = 0) \<and>
         \<not> (upsell_flag r = 1 \<and> downsell_flag r = 1)"
    proof (rule ballI)
      fix r assume "r \<in> set df'"
      then obtain i where i: "i < length df" "df' ! i = r"
        using len by (auto simp: in_set_conv_nth)
      have g: "buckets_grouped r"
        using classify_rows[OF a i(1)] classify_row_grouped i(2) by blast
      then show "(new_customer_flag r = 1 \<or> customer_churn_flag r = 1 \<longrightarrow>
            cross_sell_flag r = 0 \<and> product_churn_flag r = 0 \<and>
            upsell_flag r = 0 \<and> downsell_flag r = 0) \<and>
         (cross_sell_flag r = 1 \<or> product_churn_flag r = 1 \<longrightarrow>
            upsell_flag r = 0 \<and> downsell_flag r = 0) \<and>
         \<not> (upsell_flag r = 1 \<and> downsell_flag r = 1)"
        by (simp add: buckets_grouped_def split: if_splits)
    qed
  qed
qed

text \<open>
  The theorem at work on three rows of a customer of March 2019 under YTD: a second
  product bought in February 2020 is a cross-sell in April 2020 and nothing else; the
  first product, up from 100 to 150, is an upsell and nothing else.
\<close>

theorem classify_bucket_groups_exclusive_witness:
  "list_all (\<lambda>r. period_ready (calendar_policy ''YTD'' 1) (month_next_period r))
       [(customer_row (ts 2019 3 1) (ts 2021 1 1) (ts 2020 4 1) 40 0)
          \<lparr>product_start_date := ts 2020 2 1\<rparr>,
        customer_row (ts 2019 3 1) (ts 2021 1 1) (ts 2020 4 1) 150 100]
   \<and> map_sum id (map cross_sell_flag)
       (classify (calendar_policy ''YTD'' 1)
          [(customer_row (ts 2019 3 1) (ts 2021 1 1) (ts 2020 4 1) 40 0)
             \<lparr>product_start_date := ts 2020 2 1\<rparr>,
           customer_row (ts 2019 3 1) (ts 2021 1 1) (ts 2020 4 1) 150 100]) = Inr [1, 0]
   \<and> map_sum id (map upsell_flag)
       (classify (calendar_policy ''YTD'' 1)
          [(customer_row (ts 2019 3 1) (ts 2021 1 1) (ts 2020 4 1) 40 0)
             \<lparr>product_start_date := ts 2020 2 1\<rparr>,
           customer_row (ts 2019 3 1) (ts 2021 1 1) (ts 2020 4 1) 150 100]) = Inr [0, 1]"
  using classify_bucket_groups_exclusive [of
      "[(customer_row (ts 2019 3 1) (ts 2021 1 1) (ts 2020 4 1) 40 0)
          \<lparr>product_start_date := ts 2020 2 1\<rparr>,
        customer_row (ts 2019 3 1) (ts 2021 1 1) (ts 2020 4 1) 150 100]"
      "calendar_policy ''YTD'' 1"]
  by (simp add: ev)

subsection \<open>Existing-customer and existing-product flags\<close>

text \<open>
  What the fixed-N branch computes: the lookup table is \<^verbatim>\<open>range(month_period, 100)\<close>, so
  the flag is 1 exactly for an age from \<open>N\<close> to 99 months.
\<close>

lemma upsell_flags_row_existing_static:
  assumes "crb_number_months con" and "upsell_flags_row con r = Inr r'"
  shows "(existing_customer_flag r' = 1 \<longleftrightarrow>
            month_period con \<le> calculate_month_difference (customer_start_date r) (month r) \<and>
            calculate_month_difference (customer_start_date r) (month r) < 100) \<and>
         (existing_product_flag r' = 1 \<longleftrightarrow>
            month_period con \<le> calculate_month_difference (product_start_date r) (month r) \<and>
            calculate_month_difference (product_start_date r) (month r) < 100)"
  using assms
  by (auto simp: upsell_flags_row_def Let_def upsell_downsell_fields map_fillna_def flag_dict_def
      split: if_splits)

text \<open>
  C5 fails on the code by a wrong constant. The comment in the source says the flag is
  "false in the initial period following a start date, and true thereafter", and the
  calendar branch compares with \<^verbatim>\<open>>=\<close> and has no upper limit; the fixed-N branch stops
  at 99 months. A customer of January 2012 under \<open>N = 12\<close> is 100 months old in May 2020:
  its \<^verbatim>\<open>existing_customer_flag\<close> and \<^verbatim>\<open>existing_product_flag\<close> are 0, and its ARR
  increase from 100 to 150 is no upsell.
\<close>

theorem crb_upsell_flags_age_100_not_existing:
  "calculate_month_difference (ts 2012 1 1) (ts 2020 5 1) = 100
   \<and> map_sum id (map existing_customer_flag)
       (crb_upsell_flags (fixed_window 12)
          [flagged_row (customer_row (ts 2012 1 1) (ts 2021 1 1) (ts 2020 5 1) 150 100) 0 0 0 0])
       = Inr [0]
   \<and> map_sum id (map existing_product_flag)
       (crb_upsell_flags (fixed_window 12)
          [flagged_row (customer_row (ts 2012 1 1) (ts 2021 1 1) (ts 2020 5 1) 150 100) 0 0 0 0])
       = Inr [0]
   \<and> map_sum id (map upsell_flag)
       (crb_upsell_flags (fixed_window 12)
          [flagged_row (customer_row (ts 2012 1 1) (ts 2021 1 1) (ts 2020 5 1) 150 100) 0 0 0 0])
       = Inr [0]"
  by code_simp

subsection \<open>Start of the next and of the current period\<close>

text \<open>
  Under QTD (the fiscal start month is forced to 1) the next period of every month is the
  first day of the next calendar quarter.
\<close>

lemma calculate_start_of_next_period_QTD:
  assumes "1 \<le> m" and "m \<le> 12"
  shows "map_sum id fst
           (calculate_start_of_next_period (calendar_policy ''QTD'' fy) (ts y m d) cs)
         = Inr (Some (if m < 4 then ts y 4 1 else if m < 7 then ts y 7 1
                      else if m < 10 then ts y 10 1 else ts (y + 1) 1 1))"
proof -
  from assms have "m = 1 \<or> m = 2 \<or> m = 3 \<or> m = 4 \<or> m = 5 \<or> m = 6 \<or> m = 7 \<or> m = 8 \<or>
      m = 9 \<or> m = 10 \<or> m = 11 \<or> m = 12"
    by presburger
  then show ?thesis
    by (elim disjE) (simp_all add: ev)
qed

text \<open>
  The example of the specification: with \<^verbatim>\<open>fy_start_month = 2\<close> the quarters start in
  the months 2, 5, 8 and 11, and a row of June has its next period in August of the same
  year.
\<close>

lemma calculate_start_of_next_period_FQTD_june:
  "map (quarter_month 2) [0, 1, 2, 3] = [2, 5, 8, 11]
   \<and> calculate_start_of_next_period (calendar_policy ''FQTD'' 2) (ts 2020 6 1) (NoColumn, NoColumn)
     = Inr (Some (ts 2020 8 1), (Val 8, Val 2020))"
  by code_simp

text \<open>
  C7 fails on the code by a missed case. The same-year assignment of the loop requires
  \<^verbatim>\<open>month < 10\<close> and the next-year assignment requires the quarter to start in October or
  later, so with \<^verbatim>\<open>fy_start_month = 2\<close> the rows of October (quarter of August) and of
  January (quarter of November) match no assignment in any of the four passes. On a frame
  that has not been through the period functions such a row is left at NaN and its next
  period is NaT, where the claim has 2020-11-01 and 2020-02-01.
\<close>

theorem calculate_start_of_next_period_FQTD_october_unassigned:
  "calculate_start_of_next_period (calendar_policy ''FQTD'' 2) (ts 2020 10 1) (NoColumn, NoColumn)
     = Inr (None, (NaN, NaN))
   \<and> calculate_start_of_next_period (calendar_policy ''FQTD'' 2) (ts 2020 1 1) (NoColumn, NoColumn)
     = Inr (None, (NaN, NaN))"
  by code_simp

text \<open>
  On a frame that has been through the calculator such a row keeps what the earlier call
  left: here the next period of a product of October 2020 is the one computed just before
  for its customer of June 2019.
\<close>

lemma calculate_start_of_next_period_FQTD_october_stale:
  "calculate_start_of_next_period (calendar_policy ''FQTD'' 2) (ts 2020 10 1) (Val 8, Val 2019)
     = Inr (Some (ts 2019 8 1), (Val 8, Val 2019))"
  by code_simp

lemma calculate_start_of_next_period_YTD:
  assumes "crb_type con = ''YTD''" and "1 \<le> dt_month d"
  shows "calculate_start_of_next_period con d cs
     = Inr (Some \<lparr>dt_year = dt_year d + 1, dt_month = 1, dt_day = 1\<rparr>, (Val 1, Val (dt_year d + 1)))"
  using assms
  by (simp add: calculate_start_of_next_period_def effective_fy_start_month_def Let_def
      set_loc_def to_datetime_def)

lemma calculate_start_of_next_period_YTD_month_cell:
  assumes "crb_type con = ''YTD''"
  shows "\<exists>t ycell. calculate_start_of_next_period con e cs = Inr (t, (Val 1, ycell))"
proof (cases "dt_month e < 1")
  case True
  then show ?thesis using assms
    by (simp add: calculate_start_of_next_period_def effective_fy_start_month_def Let_def
        set_loc_def to_datetime_def)
next
  case False
  then show ?thesis using assms
    by (simp add: calculate_start_of_next_period_def effective_fy_start_month_def Let_def
        set_loc_def to_datetime_def)
qed

lemma calculate_start_of_current_period_YTD:
  assumes "crb_type con = ''YTD''" and "1 \<le> dt_month d"
  shows "calculate_start_of_current_period con d (Val 1, ycell)
     = Inr (Some \<lparr>dt_year = dt_year d, dt_month = 1, dt_day = 1\<rparr>, (Val 1, Val (dt_year d)))"
  using assms
  by (simp add: calculate_start_of_current_period_def effective_fy_start_month_def Let_def
      set_loc_def to_datetime_def)

text \<open>
  C8. Under the YTD policy, whatever \<^verbatim>\<open>fy_start_month\<close> the configuration holds (the
  branch sets it to 1), for every row date in a month from January on:
  \<^verbatim>\<open>calculate_start_of_next_period\<close> returns January 1 of the following year, on any
  frame; and \<^verbatim>\<open>calculate_start_of_current_period\<close>, called where the program calls it,
  on the frame \<^verbatim>\<open>trim_dataset\<close> has left, returns January 1 of the row's year, whatever
  the segment end date of the row and whatever the frame held before the trim. For the
  row dated 2021-07-01 these are 2022-01-01 and 2021-01-01.
\<close>

theorem calculate_start_of_periods_YTD:
  assumes "crb_type con = ''YTD''" and "1 \<le> dt_month d"
  shows "start_of_current_period_after_trim con segment_end_date d cs0
           = Inr (Some \<lparr>dt_year = dt_year d, dt_month = 1, dt_day = 1\<rparr>)
       \<and> map_sum id fst (calculate_start_of_next_period con d cs)
           = Inr (Some \<lparr>dt_year = dt_year d + 1, dt_month = 1, dt_day = 1\<rparr>)"
proof
  obtain t ycell where
    "calculate_start_of_next_period con segment_end_date cs0 = Inr (t, (Val 1, ycell))"
    using calculate_start_of_next_period_YTD_month_cell[OF assms(1)] by blast
  then show "start_of_current_period_after_trim con segment_end_date d cs0
      = Inr (Some \<lparr>dt_year = dt_year d, dt_month = 1, dt_day = 1\<rparr>)"
    by (simp add: start_of_current_period_after_trim_def
        calculate_start_of_current_period_YTD[OF assms])
next
  show "map_sum id fst (calculate_start_of_next_period con d cs)
      = Inr (Some \<lparr>dt_year = dt_year d + 1, dt_month = 1, dt_day = 1\<rparr>)"
    by (simp add: calculate_start_of_next_period_YTD[OF assms])
qed

text \<open>
  The example of the specification: the row dated 2021-07-01, of a segment whose last
  active month is December 2021, on a frame that has not been through the period
  functions before the trim.
\<close>

theorem calculate_start_of_periods_YTD_witness:
  "crb_type (calendar_policy ''YTD'' 1) = ''YTD''
   \<and> 1 \<le> dt_month (ts 2021 7 1)
   \<and> start_of_current_period_after_trim (calendar_policy ''YTD'' 1) (ts 2021 12 1) (ts 2021 7 1)
       (NoColumn, NoColumn) = Inr (Some (ts 2021 1 1))
   \<and> map_sum id fst (calculate_start_of_next_period (calendar_policy ''YTD'' 1) (ts 2021 7 1)
       (NoColumn, NoColumn)) = Inr (Some (ts 2022 1 1))"
proof -
  have h: "crb_type (calendar_policy ''YTD'' 1) = ''YTD''" "1 \<le> dt_month (ts 2021 7 1)"
    by (simp_all add: calendar_policy_def ts_def)
  show ?thesis
    using h calculate_start_of_periods_YTD [OF h, of "ts 2021 12 1" "(NoColumn, NoColumn)"
        "(NoColumn, NoColumn)"]
    by (simp add: ts_def)
qed

text \<open>
  Outside that order of calls the function depends on what the frame holds: its YTD/FYTD
  branch stores the fiscal month in \<^verbatim>\<open>month_current_period\<close> and assembles the date
  from \<^verbatim>\<open>df['month_next_period']\<close>, so on a frame without that column, which the
  program never passes to it, it raises a KeyError.
\<close>

lemma calculate_start_of_current_period_YTD_without_working_column:
  "calculate_start_of_current_period (calendar_policy ''YTD'' 1) (ts 2021 7 1) (NoColumn, NoColumn)
     = Inl (KeyError ''month_next_period'')"
  by code_simp

subsection \<open>Sign of the bucket amounts\<close>

text \<open>
  C4 fails on the code under the calendar policies. A customer that starts in the first
  month of a period is compared with its own first month (\<^verbatim>\<open>arr_bop\<close> is its ARR at the
  start of the period) and is flagged as a new customer for the rest of the period. When
  its ARR falls inside that period the new-logo amount is negative: for the customer with
  ARR 100 in January 2020 and 50 in February 2020 under QTD, \<^verbatim>\<open>Delta_New_Customer\<close> is
  -50 on the row of February and -100 on the row of March, and
  \<^verbatim>\<open>check_no_negative_new_logo\<close> raises.
\<close>

theorem flat_file_negative_new_logo:
  "map_sum id (map Delta_New_Customer) (flat_file (calendar_policy ''QTD'' 1) [0] january_customer)
     = Inr [0, -50, -100]
   \<and> map_sum id (map new_customer_flag) (flat_file (calendar_policy ''QTD'' 1) [0] january_customer)
     = Inr [0, 1, 1]
   \<and> map_sum id (map arr_bop) (flat_file (calendar_policy ''QTD'' 1) [0] january_customer)
     = Inr [100, 100, 100]
   \<and> map_sum id directionality_checks (flat_file (calendar_policy ''QTD'' 1) [0] january_customer)
     = Inr (Inl (ValueError ''Customers in the dataset have negative new logo.''))"
  by code_simp

subsection \<open>Configuration check\<close>

lemma check_month_period_ok:
  "check_month_period con = Inr () \<longleftrightarrow> (\<exists>mp. raw_month_period con = Some mp \<and> is_number mp)"
  by (auto simp: check_month_period_def split: option.splits)

lemma check_fy_start_month_ok:
  "check_fy_start_month f con = Inr () \<longleftrightarrow>
     (\<exists>fy v. raw_fy_start_month con = Some fy \<and> number_value fy = Some v \<and>
        0 < v \<and> v \<le> 12 \<and> f fy)"
  by (auto simp: check_fy_start_month_def is_number_def number_value_def
      split: option.splits yaml.splits)

text \<open>
  C9, as the claim states it, fails: the fixed-N branch only tests
  \<^verbatim>\<open>isinstance(con['month_period'], numbers.Number)\<close>, so a month period of 0 (or a
  negative or fractional one) passes the check.
\<close>

theorem check_config_time_period_zero_months_counterexample:
  "check_config_time_period example_month_name_ok
     \<lparr>raw_crb_type = Some (YStr ''number_of_months''), raw_month_period = Some (YInt 0),
      raw_fy_start_month = None\<rparr> = Inr ()
   \<and> check_config_time_period example_month_name_ok
     \<lparr>raw_crb_type = Some (YStr ''number_of_months''), raw_month_period = Some (YFloat (-5 / 2)),
      raw_fy_start_month = None\<rparr> = Inr ()"
  by code_simp

text \<open>
  C9, amended. \<^verbatim>\<open>check_config_time_period\<close> returns without error if and only if
  \<^verbatim>\<open>crb_type\<close> is one of the five policy names, and \<^verbatim>\<open>month_period\<close> is present and a
  number (of any sign, whole or not) when the policy is \<^verbatim>\<open>number_of_months\<close>, and
  \<^verbatim>\<open>fy_start_month\<close> is present and a number \<open>v\<close> with \<open>0 < v \<le> 12\<close> whose month name
  pandas can print when the policy is FYTD or FQTD. In every other case it raises.
\<close>

theorem check_config_time_period_accepts:
  "(check_config_time_period f con = Inr () \<longleftrightarrow>
     (\<exists>s. raw_crb_type con = Some (YStr s) \<and> s \<in> set crb_type_options \<and>
        (s = ''number_of_months'' \<longrightarrow>
           (\<exists>mp. raw_month_period con = Some mp \<and> is_number mp)) \<and>
        (s = ''FYTD'' \<or> s = ''FQTD'' \<longrightarrow>
           (\<exists>fy v. raw_fy_start_month con = Some fy \<and> number_value fy = Some v \<and>
              0 < v \<and> v \<le> 12 \<and> f fy)))) \<and>
   ((\<exists>e. check_config_time_period f con = Inl e) \<longleftrightarrow>
      check_config_time_period f con \<noteq> Inr ())"
proof (rule conjI)
  show "check_config_time_period f con = Inr () \<longleftrightarrow>
     (\<exists>s. raw_crb_type con = Some (YStr s) \<and> s \<in> set crb_type_options \<and>
        (s = ''number_of_months'' \<longrightarrow>
           (\<exists>mp. raw_month_period con = Some mp \<and> is_number mp)) \<and>
        (s = ''FYTD'' \<or> s = ''FQTD'' \<longrightarrow>
           (\<exists>fy v. raw_fy_start_month con = Some fy \<and> number_value fy = Some v \<and>
              0 < v \<and> v \<le> 12 \<and> f fy)))"
  proof (cases "raw_crb_type con")
    case None
    then show ?thesis by (simp add: check_config_time_period_def)
  next
    case (Some t)
    show ?thesis
    proof (cases "t \<in> set (map YStr crb_type_options)")
      case False
      then show ?thesis using Some
        by (auto simp: check_config_time_period_def)
    next
      case True
      then obtain s where s: "t = YStr s" "s \<in> set crb_type_options" by auto
      from s(2) consider "s = ''number_of_months''" | "s = ''YTD''" | "s = ''QTD''"
        | "s = ''FYTD''" | "s = ''FQTD''"
        by (auto simp: crb_type_options_def)
      then show ?thesis
        using Some s check_month_period_ok[of con] check_fy_start_month_ok[of f con]
        by cases (auto simp: check_config_time_period_def crb_type_options_def
            split: sum.splits)
    qed
  qed
next
  show "(\<exists>e. check_config_time_period f con = Inl e) \<longleftrightarrow>
      check_config_time_period f con \<noteq> Inr ()"
    by (cases "check_config_time_period f con") auto
qed

text \<open>
  The theorem at work: FQTD with the fiscal year starting in February is accepted, FQTD
  with no fiscal start month is not.
\<close>

theorem check_config_time_period_accepts_witness:
  "check_config_time_period example_month_name_ok
     \<lparr>raw_crb_type = Some (YStr ''FQTD''), raw_month_period = None,
      raw_fy_start_month = Some (YInt 2)\<rparr> = Inr ()
   \<and> check_config_time_period example_month_name_ok
     \<lparr>raw_crb_type = Some (YStr ''FQTD''), raw_month_period = None,
      raw_fy_start_month = None\<rparr> \<noteq> Inr ()"
  using check_config_time_period_accepts [of example_month_name_ok
      "\<lparr>raw_crb_type = Some (YStr ''FQTD''), raw_month_period = None,
        raw_fy_start_month = Some (YInt 2)\<rparr>"]
    check_config_time_period_accepts [of example_month_name_ok
      "\<lparr>raw_crb_type = Some (YStr ''FQTD''), raw_month_period = None,
        raw_fy_start_month = None\<rparr>"]
  by (simp add: crb_type_options_def number_value_def example_month_name_ok_def)

subsection \<open>Waterfall reconciliation\<close>






lemma fst_series_round2 [simp]: "map fst (series_round2 d) = map fst d"
  by (simp add: series_round2_def comp_def)





text \<open>
  The second check at work: with no residue and an end-of-period ARR of 50 against an input
  of 100, the function raises after producing the frame of the customers that differ.
\<close>

lemma check_waterfall_sums_annual_mismatch:
  "check_waterfall_sums True one_customer_input (residue_waterfall 50 0)
     = (Some [((2020, 0), 100, 50)], Inl (ValueError ''Waterfall sums are not equal.''))
   \<and> check_waterfall_sums True one_customer_input (residue_waterfall 100 0) = (None, Inr ())"
  by code_simp



end
